theory Spec2Isabelle
  imports Complex_Main
begin

section \<open>Discrete Hankel transform (fbpic/hankel_dt.py)\<close>

text \<open>
  A shallow embedding of the class \<open>DHT\<close> and of the helper \<open>array_multiply\<close>.

  Conventions of the embedding.
  \<^item> Floating-point numbers are real numbers and floating-point operations are exact; the
    values inf and nan do not exist. Where numpy divides arrays, the model divides reals.
  \<^item> Arrays have rank 1 (a list) or, for the operators, rank 2 (a list of rows). The data
    arrays handed to the transforms may be complex, the grids and operators are real.
  \<^item> The routines of scipy, numpy.linalg and the accelerator library are not part of the
    repository. They are the fields of a record \<open>extern\<close> that every routine receives.
    The discrete Fourier transform of numpy.fft is written out from its definition.
  \<^item> Every \<open>raise\<close> of the source and every exception of the interpreter on the modelled
    paths is a value \<open>Inl e\<close>.
\<close>

subsection \<open>Errors, keyword arguments, external routines\<close>

datatype error =
    IllegalMethod            \<comment> \<open>ValueError('Illegal method string')\<close>
  | InvalidOrder int int     \<comment> \<open>ValueError('m must be either ...'), with p and m\<close>
  | ZeroDivisionError
  | TypeError string
  | IndexError
  | AttributeError string
  | UnboundLocalError string
  | NumpyValueError          \<comment> \<open>ValueError of numpy: shapes or sizes do not fit\<close>
  | LibError string          \<comment> \<open>raised inside an external routine\<close>

datatype pyval = PyNone | PyFloat real | PyStr string

type_synonym kwargs = "(string \<times> pyval) list"

record extern =
  jn :: "int \<Rightarrow> real \<Rightarrow> real"
  jn_zeros :: "int \<Rightarrow> nat \<Rightarrow> string + real list"
  linalg_inv :: "real list list \<Rightarrow> string + real list list"
  fsolve :: "(real \<Rightarrow> real) \<Rightarrow> real \<Rightarrow> real"
  cuda_installed :: bool
  cuda_dot :: "complex list \<Rightarrow> real list list \<Rightarrow> string + complex list"

definition lib :: "string + 'a \<Rightarrow> error + 'a" where
  "lib x = (case x of Inl e \<Rightarrow> Inl (LibError e) | Inr v \<Rightarrow> Inr v)"

definition err_bind :: "error + 'a \<Rightarrow> ('a \<Rightarrow> error + 'b) \<Rightarrow> error + 'b" where
  \<comment> \<open>sequencing: an exception of the first step ends the routine\<close>
  "err_bind x f = (case x of Inl e \<Rightarrow> Inl e | Inr v \<Rightarrow> f v)"

subsection \<open>The object\<close>

text \<open>
  The attributes of a \<open>DHT\<close> object. An attribute that no routine has assigned yet holds the
  value it has in \<open>new_self\<close>; \<open>self_M\<close> is \<open>None\<close> until it is assigned, because
  \<open>MDHT_init\<close> can return without assigning it.
\<close>

record DHT =
  self_method :: string
  self_use_cuda :: bool
  self_d :: pyval
  self_Fw :: pyval
  self_p :: int
  self_m :: int
  self_N :: nat
  self_rmax :: real
  self_r :: "real list"
  self_nu :: "real list"
  self_invM :: "real list list"
  self_M :: "real list list option"
  self_numax :: real
  self_J :: "real list"
  self_J_inv :: "real list"
  self_T :: "real list list"
  self_fft_j_convol :: "complex list"

definition new_self :: DHT where
  "new_self = \<lparr> self_method = [], self_use_cuda = False, self_d = PyNone, self_Fw = PyNone,
     self_p = 0, self_m = 0, self_N = 0, self_rmax = 0, self_r = [], self_nu = [],
     self_invM = [], self_M = None, self_numax = 0, self_J = [], self_J_inv = [],
     self_T = [], self_fft_j_convol = [] \<rparr>"

definition available_methods :: "string list" where
  "available_methods = [''QDHT'', ''MDHT(m+1,m)'', ''MDHT(m-1,m)'', ''MDHT(m,m)'']"

subsection \<open>Array helpers\<close>

definition arange :: "nat \<Rightarrow> real list" where
  "arange n = map real [0..<n]"

definition all_zero :: "real list \<Rightarrow> bool" where
  "all_zero xs = list_all (\<lambda>x. x = 0) xs"

definition divide_rows :: "real list list \<Rightarrow> real list \<Rightarrow> real list list" where
  \<comment> \<open>\<open>num / denom[:, np.newaxis]\<close>\<close>
  "divide_rows num denom = map2 (\<lambda>row dn. map (\<lambda>x. x / dn) row) num denom"

definition transpose_rows :: "real list list \<Rightarrow> real list list" where
  \<comment> \<open>\<open>A.T\<close> of a matrix given by its rows\<close>
  "transpose_rows A =
     (case A of [] \<Rightarrow> [] | row # _ \<Rightarrow> map (\<lambda>j. map (\<lambda>rw. rw ! j) A) [0..<length row])"

subsection \<open>MDHT\_init\<close>

definition include_0 :: "int list" where
  "include_0 = [-1, 1]"

definition MDHT_zeros :: "extern \<Rightarrow> int \<Rightarrow> nat \<Rightarrow> error + real list" where
  \<comment> \<open>lines 241-248: the sequence \<open>zeros\<close>\<close>
  "MDHT_zeros env m N =
     (if m \<in> set include_0
      then err_bind (lib (jn_zeros env m N)) (\<lambda>zs. Inr (0 # zs))
      else lib (jn_zeros env m (N + 1)))"

definition MDHT_nu :: "real \<Rightarrow> real list \<Rightarrow> real list" where
  \<comment> \<open>line 253\<close>
  "MDHT_nu rmax alphas = map (\<lambda>a. 1 / (2 * pi * rmax) * a) alphas"

definition MDHT_S :: "extern \<Rightarrow> nat \<Rightarrow> int \<Rightarrow> real list \<Rightarrow> error + real" where
  \<comment> \<open>lines 267-273: S from Kai-Ming et al.\<close>
  "MDHT_S env N m alphas =
     (let k = N div 4 in
      if k \<ge> length alphas then Inl IndexError
      else let A = alphas ! k in
        err_bind (lib (jn_zeros env m N)) (\<lambda>zs.
            if zs = [] then Inl IndexError
            else let J = last zs in
              Inr (\<bar>2 / jn env (m - 1) (alphas ! k)\<bar> *
                   sqrt (1 + sum_list (map (\<lambda>a. (jn env (m - 1) (A * a / J))\<^sup>2 /
                                                 (jn env (m - 1) a)\<^sup>2) (tl alphas))))))"

definition MDHT_spatial ::
  "extern \<Rightarrow> int \<Rightarrow> nat \<Rightarrow> real \<Rightarrow> int \<Rightarrow> pyval \<Rightarrow> real \<Rightarrow> real list \<Rightarrow> error + (real list \<times> real)" where
  \<comment> \<open>lines 255-274: the grid \<open>r\<close> and the bandwidth product \<open>S\<close>\<close>
  "MDHT_spatial env p N rmax m d last_alpha alphas =
     (case d of
        PyFloat dv \<Rightarrow>
          if N = 0 then Inl ZeroDivisionError
          else Inr (map (\<lambda>n. (rmax * 1 / real N) * (n + dv)) (arange N), last_alpha)
      | PyStr s \<Rightarrow>
          if N = 0 then Inl ZeroDivisionError
          else Inl (TypeError ''unsupported operand type(s) for +'')
      | PyNone \<Rightarrow>
          err_bind (if m = p then Inr last_alpha else MDHT_S env N m alphas)
            (\<lambda>S. Inr (map (\<lambda>a. rmax * a / S) alphas, S)))"

definition p_denom_of :: "int \<Rightarrow> int \<Rightarrow> int" where
  \<comment> \<open>lines 279-280\<close>
  "p_denom_of p m = (let p_denom = p in if p = m then m + 1 else p_denom)"

definition MDHT_denom :: "extern \<Rightarrow> int \<Rightarrow> int \<Rightarrow> real \<Rightarrow> real list \<Rightarrow> real list" where
  \<comment> \<open>line 281\<close>
  "MDHT_denom env p m rmax alphas =
     map (\<lambda>a. pi * rmax\<^sup>2 * (jn env (p_denom_of p m) a)\<^sup>2) alphas"

definition MDHT_num :: "extern \<Rightarrow> int \<Rightarrow> real list \<Rightarrow> real list \<Rightarrow> real list list" where
  \<comment> \<open>line 282: row i belongs to \<open>nu[i]\<close>, column j to \<open>r[j]\<close>\<close>
  "MDHT_num env p r nu = map (\<lambda>nu_i. map (\<lambda>r_j. jn env p (2 * pi * r_j * nu_i)) r) nu"

definition avoid_div0 :: "real list \<Rightarrow> real list list \<Rightarrow> error + real list" where
  \<comment> \<open>lines 284-285\<close>
  "avoid_div0 denom num =
     (if denom = [] then Inl IndexError
      else if denom ! 0 = 0 \<and> all_zero (num ! 0) then Inr (denom[0 := 1])
      else Inr denom)"

definition MDHT_corrected ::
  "extern \<Rightarrow> int \<Rightarrow> int \<Rightarrow> real \<Rightarrow> real \<Rightarrow> real list \<Rightarrow> real list \<Rightarrow> real list list \<Rightarrow>
   real list list" where
  \<comment> \<open>lines 295-298: \<open>denom[0]\<close> and \<open>num[0,:]\<close> are overwritten, then \<open>num / denom\<close> is taken again\<close>
  "MDHT_corrected env p m rmax last_alpha r denom num =
     (let nu_additional = 1 / (2 * pi * rmax) * last_alpha;
          denom = denom[0 := pi * rmax\<^sup>2 * (jn env (p_denom_of p m) last_alpha)\<^sup>2];
          num = num[0 := map (\<lambda>r_j. jn env p (2 * pi * r_j * nu_additional)) r]
      in divide_rows num denom)"

definition MDHT_forward ::
  "extern \<Rightarrow> int \<Rightarrow> int \<Rightarrow> real \<Rightarrow> pyval \<Rightarrow> real \<Rightarrow> real \<Rightarrow> real list \<Rightarrow> real list \<Rightarrow>
   real list list \<Rightarrow> real list list \<Rightarrow> error + (real list list option \<times> real list list)" where
  \<comment> \<open>lines 288-307: the forward matrix and the stored \<open>invM\<close>; the argument \<open>invM\<close> is the
      matrix of line 286\<close>
  "MDHT_forward env p m rmax Fw S last_alpha r denom num invM =
     err_bind
       (if Fw = PyStr ''inverse'' then
          (if m \<in> set include_0 \<and> p \<noteq> 0 then
             (let invM = MDHT_corrected env p m rmax last_alpha r denom num
              in err_bind (lib (linalg_inv env invM))
                   (\<lambda>Mx. Inr (Some Mx, invM[0 := map (\<lambda>_. 0) (invM ! 0)])))
           else err_bind (lib (linalg_inv env invM)) (\<lambda>Mx. Inr (Some Mx, invM)))
        else Inr (None, invM))
       (\<lambda>(Mo, invM).
          if Fw = PyStr ''symmetric''
          then Inr (Some (map (map (\<lambda>x. (2 * pi * rmax\<^sup>2 / S)\<^sup>2 * x)) (transpose_rows invM)), invM)
          else Inr (Mo, invM))"

definition MDHT_init ::
  "extern \<Rightarrow> DHT \<Rightarrow> int \<Rightarrow> nat \<Rightarrow> real \<Rightarrow> int \<Rightarrow> pyval \<Rightarrow> pyval \<Rightarrow> error + DHT" where
  "MDHT_init env self p N rmax m d Fw =
     (if m \<notin> set [p - 1, p, p + 1] then Inl (InvalidOrder p m)
      else
        let self = self\<lparr> self_d := d, self_Fw := Fw, self_p := p, self_m := m,
                         self_N := N, self_rmax := rmax \<rparr>
        in err_bind (MDHT_zeros env m N) (\<lambda>zeros.
        if zeros = [] then Inl IndexError
        else
          let last_alpha = last zeros; alphas = butlast zeros
          in if rmax = 0 then Inl ZeroDivisionError
             else
               let self = self\<lparr> self_nu := MDHT_nu rmax alphas \<rparr>
               in err_bind (MDHT_spatial env p N rmax m d last_alpha alphas) (\<lambda>(r, S).
               let self = self\<lparr> self_r := r \<rparr>;
                   denom = MDHT_denom env p m rmax alphas;
                   num = MDHT_num env p (self_r self) (self_nu self)
               in err_bind (avoid_div0 denom num) (\<lambda>denom.
               let self = self\<lparr> self_invM := divide_rows num denom \<rparr>
               in err_bind (MDHT_forward env p m rmax Fw S last_alpha (self_r self) denom num
                              (self_invM self)) (\<lambda>(Mo, invM).
               Inr (self\<lparr> self_invM := invM, self_M := Mo \<rparr>))))))"

subsection \<open>QDHT\_init\<close>

definition QDHT_build :: "extern \<Rightarrow> DHT \<Rightarrow> int \<Rightarrow> nat \<Rightarrow> real \<Rightarrow> real list \<Rightarrow> DHT" where
  \<comment> \<open>lines 362-380, once \<open>zeros\<close> is known to have a last element\<close>
  "QDHT_build env self p N rmax zeros =
     (let last_alpha = last zeros; alphas = butlast zeros;
          numax = last_alpha / (2 * pi * rmax);
          self = self\<lparr> self_N := N, self_rmax := rmax, self_numax := numax,
                           self_r := map (\<lambda>a. rmax * a / last_alpha) alphas,
                           self_nu := map (\<lambda>a. numax * a / last_alpha) alphas \<rparr>;
          J = map (\<lambda>a. \<bar>jn env (p + 1) a\<bar>) alphas;
          self = self\<lparr> self_J := J, self_J_inv := map (\<lambda>x. 1 / x) J \<rparr>;
          denom = map (\<lambda>Ji. map (\<lambda>Jj. Ji * Jj * last_alpha) J) J;
          num = map (\<lambda>ai. map (\<lambda>aj. 2 * jn env p (ai * aj / last_alpha)) alphas) alphas
      in self\<lparr> self_T := map2 (map2 (\<lambda>x y. x / y)) num denom \<rparr>)"

definition QDHT_init :: "extern \<Rightarrow> DHT \<Rightarrow> int \<Rightarrow> nat \<Rightarrow> real \<Rightarrow> error + DHT" where
  "QDHT_init env self p N rmax =
     err_bind (lib (jn_zeros env p (N + 1))) (\<lambda>zeros.
       if zeros = [] then Inl IndexError
       else Inr (QDHT_build env self p N rmax zeros))"

subsection \<open>The discrete Fourier transform of numpy.fft\<close>

definition dft :: "complex list \<Rightarrow> complex list" where
  \<comment> \<open>\<open>A[k] = sum_j a[j] exp(-2 pi i j k / n)\<close>\<close>
  "dft a = (let n = length a in
     map (\<lambda>k. \<Sum>j<n. a ! j * cis (- 2 * pi * real j * real k / real n)) [0..<n])"

definition idft :: "complex list \<Rightarrow> complex list" where
  \<comment> \<open>\<open>a[j] = 1/n sum_k A[k] exp(2 pi i j k / n)\<close>\<close>
  "idft A = (let n = length A in
     map (\<lambda>j. (\<Sum>k<n. A ! k * cis (2 * pi * real j * real k / real n)) / of_nat n) [0..<n])"

definition np_fft :: "complex list \<Rightarrow> nat option \<Rightarrow> error + complex list" where
  \<comment> \<open>\<open>np.fft.fft(a, n)\<close>: the input is cropped or padded with zeros to length n\<close>
  "np_fft a n_opt =
     (let n = (case n_opt of None \<Rightarrow> length a | Some n \<Rightarrow> n) in
      if n = 0 then Inl NumpyValueError
      else Inr (dft (take n a @ replicate (n - length a) 0)))"

definition np_ifft :: "complex list \<Rightarrow> error + complex list" where
  "np_ifft a = (if a = [] then Inl NumpyValueError else Inr (idft a))"

definition np_split2 :: "complex list \<Rightarrow> error + (complex list \<times> complex list)" where
  \<comment> \<open>\<open>np.split(a, 2)\<close>: two halves, an error when the length is odd\<close>
  "np_split2 a =
     (if odd (length a) then Inl NumpyValueError
      else Inr (take (length a div 2) a, drop (length a div 2) a))"

subsection \<open>FHT\_init\<close>

definition FHT_init :: "extern \<Rightarrow> DHT \<Rightarrow> int \<Rightarrow> nat \<Rightarrow> real \<Rightarrow> error + DHT" where
  "FHT_init env self p N rmax =
     (let K = 4;
          alpha = fsolve env (\<lambda>x. exp (x * real N) * (1 - exp (- x)) - 1) 1;
          dr = rmax / exp (alpha * real N);
          self = self\<lparr> self_N := N,
                          self_r := map (\<lambda>n. dr * exp (alpha * n)) (arange N) \<rparr>
      in if K * rmax = 0 then Inl ZeroDivisionError
         else
           let self = self\<lparr> self_nu := map (\<lambda>n. 1 / (K * rmax) * exp (alpha * n)) (arange N) \<rparr>;
               r_nu = map (\<lambda>n. dr / (K * rmax) * exp (alpha * n)) (arange (2 * N));
               j_convol = map (\<lambda>x. 2 * pi * alpha * x * jn env p (2 * pi * x)) r_nu
           in err_bind (np_ifft (map complex_of_real j_convol))
                (\<lambda>c. Inr (self\<lparr> self_fft_j_convol := c \<rparr>)))"

subsection \<open>The constructor\<close>

definition MDHT_kw :: "kwargs \<Rightarrow> error + (pyval \<times> pyval)" where
  \<comment> \<open>binding of \<open>**kw\<close> to the parameters \<open>d=0.5, Fw='inverse'\<close> of \<open>MDHT_init\<close>; every other
      keyword, \<open>m\<close> included, is a TypeError of the call\<close>
  "MDHT_kw kw =
     (if \<exists>k \<in> set (map fst kw). k \<notin> set [''d'', ''Fw'']
      then Inl (TypeError ''MDHT_init() got an unexpected or repeated keyword argument'')
      else Inr (case map_of kw ''d'' of None \<Rightarrow> PyFloat 0.5 | Some v \<Rightarrow> v,
                case map_of kw ''Fw'' of None \<Rightarrow> PyStr ''inverse'' | Some v \<Rightarrow> v))"

definition DHT_init ::
  "extern \<Rightarrow> int \<Rightarrow> nat \<Rightarrow> real \<Rightarrow> string \<Rightarrow> bool \<Rightarrow> kwargs \<Rightarrow> error + DHT" where
  "DHT_init env p N rmax method use_cuda kw =
     (if (method \<in> set available_methods) = False then Inl IllegalMethod
      else
        let self = new_self\<lparr> self_method := method \<rparr>;
            self = self\<lparr> self_use_cuda := use_cuda \<rparr>;
            self = (if self_use_cuda self = True \<and> cuda_installed env = False
                    then self\<lparr> self_use_cuda := False \<rparr> else self)
        in if self_method self = ''FHT'' then FHT_init env self p N rmax
           else if self_method self = ''QDHT'' then QDHT_init env self p N rmax
           else if self_method self = ''MDHT(m,m)'' then
             err_bind (MDHT_kw kw) (\<lambda>(d, Fw). MDHT_init env self p N rmax p d Fw)
           else if self_method self = ''MDHT(m-1,m)'' then
             err_bind (MDHT_kw kw) (\<lambda>(d, Fw). MDHT_init env self p N rmax (p + 1) d Fw)
           else if self_method self = ''MDHT(m+1,m)'' then
             err_bind (MDHT_kw kw) (\<lambda>(d, Fw). MDHT_init env self p N rmax (p - 1) d Fw)
           else Inr self)"

definition get_r :: "DHT \<Rightarrow> real list" where
  "get_r self = self_r self"

definition get_nu :: "DHT \<Rightarrow> real list" where
  "get_nu self = self_nu self"

subsection \<open>The transforms\<close>

definition np_multiply :: "complex list \<Rightarrow> complex list \<Rightarrow> error + complex list" where
  \<comment> \<open>\<open>a * v\<close> for arrays of rank 1, with numpy's broadcasting of a length-1 operand\<close>
  "np_multiply a v =
     (if length a = length v then Inr (map2 (\<lambda>x y. x * y) a v)
      else if length a = 1 then Inr (map (\<lambda>y. a ! 0 * y) v)
      else if length v = 1 then Inr (map (\<lambda>x. x * v ! 0) a)
      else Inl NumpyValueError)"

definition array_multiply :: "complex list \<Rightarrow> complex list \<Rightarrow> int \<Rightarrow> error + complex list" where
  \<comment> \<open>\<open>a.ndim > 1\<close> is false for an array of rank 1, so no axes are swapped\<close>
  "array_multiply a v axis = (let r = a in np_multiply r v)"

definition np_dot :: "complex list \<Rightarrow> real list list \<Rightarrow> error + complex list" where
  \<comment> \<open>\<open>np.dot(F, A)\<close>, F of rank 1 and A of rank 2: \<open>G[j] = sum_i F[i] A[i,j]\<close>\<close>
  "np_dot F A =
     (if length F \<noteq> length A then Inl NumpyValueError
      else Inr (map (\<lambda>j. \<Sum>i<length F. F ! i * complex_of_real (A ! i ! j))
                  [0..<(case A of [] \<Rightarrow> 0 | row # _ \<Rightarrow> length row)]))"

definition MDHT_transform :: "extern \<Rightarrow> DHT \<Rightarrow> complex list \<Rightarrow> error + complex list" where
  "MDHT_transform env self F =
     (case self_M self of
        None \<Rightarrow> Inl (AttributeError ''M'')
      | Some Mx \<Rightarrow> if self_use_cuda self then lib (cuda_dot env F Mx) else np_dot F Mx)"

definition MDHT_inverse_transform :: "extern \<Rightarrow> DHT \<Rightarrow> complex list \<Rightarrow> error + complex list" where
  "MDHT_inverse_transform env self G =
     (if self_use_cuda self then lib (cuda_dot env G (self_invM self))
      else np_dot G (self_invM self))"

definition QDHT_transform :: "DHT \<Rightarrow> complex list \<Rightarrow> error + complex list" where
  "QDHT_transform self F =
     err_bind (array_multiply F (map (\<lambda>x. complex_of_real (x * self_rmax self)) (self_J_inv self)) (- 1))
       (\<lambda>F. err_bind (np_dot F (self_T self))
       (\<lambda>G. array_multiply G (map (\<lambda>x. complex_of_real (x / self_numax self)) (self_J self)) (- 1)))"

definition QDHT_inverse_transform :: "DHT \<Rightarrow> complex list \<Rightarrow> error + complex list" where
  "QDHT_inverse_transform self G =
     err_bind (array_multiply G (map (\<lambda>x. complex_of_real (x * self_numax self)) (self_J_inv self)) (- 1))
       (\<lambda>G. err_bind (np_dot G (self_T self))
       (\<lambda>F. array_multiply F (map (\<lambda>x. complex_of_real (x / self_rmax self)) (self_J self)) (- 1)))"

definition FHT_transform :: "DHT \<Rightarrow> complex list \<Rightarrow> error + complex list" where
  "FHT_transform self F =
     err_bind (array_multiply F (map complex_of_real (self_r self)) (- 1))
       (\<lambda>rF. err_bind (np_fft rF (Some (2 * self_N self)))
       (\<lambda>fft_rF. err_bind (array_multiply fft_rF (self_fft_j_convol self) (- 1))
       (\<lambda>fft_nuG. err_bind (np_fft fft_nuG None)
       (\<lambda>nuG_large. err_bind (np_split2 nuG_large)
       (\<lambda>(nuG, _). array_multiply nuG (map (\<lambda>x. complex_of_real (1 / x)) (self_nu self)) (- 1))))))"

definition FHT_inverse_transform :: "DHT \<Rightarrow> complex list \<Rightarrow> error + complex list" where
  "FHT_inverse_transform self G =
     err_bind (array_multiply G (map complex_of_real (self_nu self)) (- 1))
       (\<lambda>nuG. err_bind (np_fft nuG (Some (2 * self_N self)))
       (\<lambda>fft_nuG. err_bind (array_multiply fft_nuG (self_fft_j_convol self) (- 1))
       (\<lambda>fft_rF. err_bind (np_fft fft_rF None)
       (\<lambda>rF_large. err_bind (np_split2 rF_large)
       (\<lambda>(rF, _). array_multiply rF (map (\<lambda>x. complex_of_real (1 / x)) (self_r self)) (- 1))))))"

definition transform :: "extern \<Rightarrow> DHT \<Rightarrow> complex list \<Rightarrow> error + complex list" where
  "transform env self F =
     (if self_method self = ''FHT'' then FHT_transform self F
      else if self_method self = ''QDHT'' then QDHT_transform self F
      else if self_method self \<in> set [''MDHT(m,m)'', ''MDHT(m-1,m)'', ''MDHT(m+1,m)'']
      then MDHT_transform env self F
      else Inl (UnboundLocalError ''G''))"

definition inverse_transform :: "extern \<Rightarrow> DHT \<Rightarrow> complex list \<Rightarrow> error + complex list" where
  "inverse_transform env self G =
     (if self_method self = ''FHT'' then FHT_inverse_transform self G
      else if self_method self = ''QDHT'' then QDHT_inverse_transform self G
      else if self_method self \<in> set [''MDHT(m,m)'', ''MDHT(m-1,m)'', ''MDHT(m+1,m)'']
      then MDHT_inverse_transform env self G
      else Inl (UnboundLocalError ''F''))"

subsection \<open>A reference environment\<close>

text \<open>
  An instance of \<open>extern\<close> on which the routines can be run: the Bessel functions are the
  first eight terms of their power series, the Bessel zeros are McMahon's leading term
  \<open>(k + |m|/2 - 1/4) pi\<close> with 355/113 for \<open>pi\<close>, matrices are inverted by the closed formulas
  for one and two rows, the root finder returns \<open>ln 2\<close>, the root of its equation for
  \<open>N = 1\<close>, and there is no accelerator.
\<close>

definition bessel_ref :: "int \<Rightarrow> real \<Rightarrow> real" where
  "bessel_ref n x =
     (let k = nat \<bar>n\<bar>;
          s = (\<Sum>i<8. (- 1) ^ i / (fact i * fact (i + k)) * (x / 2) ^ (2 * i + k))
      in if n < 0 \<and> odd k then - s else s)"

definition jn_zeros_ref :: "int \<Rightarrow> nat \<Rightarrow> string + real list" where
  "jn_zeros_ref m nt =
     (if nt = 0 then Inl ''nt > 0''
      else Inr (map (\<lambda>k. (4 * real k + 2 * real (nat \<bar>m\<bar>) - 1) * (355 / 452)) [1..<nt + 1]))"

definition linalg_inv_ref :: "real list list \<Rightarrow> string + real list list" where
  "linalg_inv_ref A =
     (case A of
        [[a]] \<Rightarrow> if a = 0 then Inl ''Singular matrix'' else Inr [[1 / a]]
      | [[a, b], [c, e]] \<Rightarrow>
          if a * e - b * c = 0 then Inl ''Singular matrix''
          else Inr [[e / (a * e - b * c), - b / (a * e - b * c)],
                    [- c / (a * e - b * c), a / (a * e - b * c)]]
      | _ \<Rightarrow> Inl ''not supported'')"

definition ref_env :: extern where
  "ref_env = \<lparr> jn = bessel_ref, jn_zeros = jn_zeros_ref, linalg_inv = linalg_inv_ref,
     fsolve = (\<lambda>f x0. ln 2), cuda_installed = False, cuda_dot = (\<lambda>F A. Inl ''no device'') \<rparr>"

subsection \<open>The statements of the specification that the code is compared with\<close>

definition spec_zeros :: "extern \<Rightarrow> int \<Rightarrow> int \<Rightarrow> nat \<Rightarrow> error + real list" where
  \<comment> \<open>the sequence of zeros as the specification words it: zero is prepended when the
      auxiliary order is \<open>p - 1\<close> or \<open>p + 1\<close>\<close>
  "spec_zeros env p m N =
     (if m = p - 1 \<or> m = p + 1
      then err_bind (lib (jn_zeros env m N)) (\<lambda>zs. Inr (0 # zs))
      else lib (jn_zeros env m (N + 1)))"

definition square :: "nat \<Rightarrow> real list list \<Rightarrow> bool" where
  "square n A \<longleftrightarrow> length A = n \<and> (\<forall>row \<in> set A. length row = n)"

definition inverse_pair :: "real list list \<Rightarrow> real list list \<Rightarrow> bool" where
  "inverse_pair A B \<longleftrightarrow>
     (let n = length A in
      square n A \<and> square n B \<and>
      (\<forall>i<n. \<forall>k<n. (\<Sum>j<n. A ! i ! j * B ! j ! k) = (if i = k then 1 else 0)) \<and>
      (\<forall>i<n. \<forall>k<n. (\<Sum>j<n. B ! i ! j * A ! j ! k) = (if i = k then 1 else 0)))"

definition inv_spec :: "extern \<Rightarrow> bool" where
  "inv_spec env \<longleftrightarrow> (\<forall>A B. linalg_inv env A = Inr B \<longrightarrow> inverse_pair A B)"

definition zeros_spec :: "extern \<Rightarrow> bool" where
  "zeros_spec env \<longleftrightarrow>
     (\<forall>m n zs. jn_zeros env m n = Inr zs \<longrightarrow>
        length zs = n \<and> sorted_wrt (\<lambda>x y. x < y) zs \<and> (\<forall>z \<in> set zs. 0 < z))"

definition grid_ok :: "nat \<Rightarrow> real list \<Rightarrow> bool" where
  "grid_ok N xs \<longleftrightarrow> length xs = N \<and> sorted_wrt (\<lambda>x y. x < y) xs \<and> (xs \<noteq> [] \<longrightarrow> 0 \<le> xs ! 0)"

definition lincomb :: "complex \<Rightarrow> complex list \<Rightarrow> complex \<Rightarrow> complex list \<Rightarrow> complex list" where
  \<comment> \<open>\<open>a*F1 + b*F2\<close> for arrays of the same length\<close>
  "lincomb a F1 b F2 = map2 (\<lambda>x y. a * x + b * y) F1 F2"

definition linear_op :: "(complex list \<Rightarrow> error + complex list) \<Rightarrow> bool" where
  "linear_op f \<longleftrightarrow>
     (\<forall>F1 F2 U1 U2 a b. length F1 = length F2 \<and> f F1 = Inr U1 \<and> f F2 = Inr U2 \<longrightarrow>
        length U1 = length U2 \<and> f (lincomb a F1 b F2) = Inr (lincomb a U1 b U2))"

definition cuda_linear :: "extern \<Rightarrow> bool" where
  "cuda_linear env \<longleftrightarrow> (\<forall>A. linear_op (\<lambda>F. lib (cuda_dot env F A)))"

definition FHT_transform_spec :: "DHT \<Rightarrow> complex list \<Rightarrow> error + complex list" where
  \<comment> \<open>the forward transform as the specification words it: scale by \<open>r\<close>, pad to \<open>2N\<close>, FFT,
      multiply by the stored kernel, inverse FFT, keep the first half, scale by \<open>1/nu\<close>\<close>
  "FHT_transform_spec self F =
     err_bind (array_multiply F (map complex_of_real (self_r self)) (- 1))
       (\<lambda>rF. err_bind (np_fft rF (Some (2 * self_N self)))
       (\<lambda>fft_rF. err_bind (array_multiply fft_rF (self_fft_j_convol self) (- 1))
       (\<lambda>fft_nuG. err_bind (np_ifft fft_nuG)
       (\<lambda>nuG_large. err_bind (np_split2 nuG_large)
       (\<lambda>(nuG, _). array_multiply nuG (map (\<lambda>x. complex_of_real (1 / x)) (self_nu self)) (- 1))))))"

subsection \<open>The transforms on a store of arrays\<close>

text \<open>
  A second embedding of the transform routines, for what they do to the objects they are
  given. Every numpy array is a cell of a store and is known by its address, its index in the
  store; the object \<open>self\<close> holds the addresses of its arrays and the values of its numbers
  and strings. An operation of numpy that returns a new array appends a cell to the store. A
  routine takes the state (the object and the store) and returns a result and the new state,
  or an error. The values in the new cells are computed by the functions of the first
  embedding.
\<close>

datatype cell = RVec "real list" | CVec "complex list" | Mat "real list list"

record DHT_ref =
  ref_method :: string
  ref_use_cuda :: bool
  ref_d :: pyval
  ref_Fw :: pyval
  ref_p :: int
  ref_m :: int
  ref_N :: nat
  ref_rmax :: real
  ref_numax :: real
  ref_r :: nat
  ref_nu :: nat
  ref_invM :: nat
  ref_M :: "nat option"
  ref_J :: nat
  ref_J_inv :: nat
  ref_T :: nat
  ref_fft_j_convol :: nat

record pystate =
  this :: DHT_ref
  heap :: "cell list"

type_synonym 'a py = "pystate \<Rightarrow> error + ('a \<times> pystate)"

definition py_bind :: "'a py \<Rightarrow> ('a \<Rightarrow> 'b py) \<Rightarrow> 'b py" where
  "py_bind m f s = (case m s of Inl e \<Rightarrow> Inl e | Inr (x, s') \<Rightarrow> f x s')"

definition py_lift :: "error + 'a \<Rightarrow> 'a py" where
  "py_lift r s = (case r of Inl e \<Rightarrow> Inl e | Inr x \<Rightarrow> Inr (x, s))"

definition alloc :: "cell \<Rightarrow> nat py" where
  \<comment> \<open>a new array object\<close>
  "alloc c s = Inr (length (heap s), s\<lparr> heap := heap s @ [c] \<rparr>)"

definition read_data :: "nat \<Rightarrow> complex list py" where
  \<comment> \<open>the values of a data array of rank 1, real or complex\<close>
  "read_data a s =
     (if a < length (heap s)
      then (case heap s ! a of
              CVec xs \<Rightarrow> Inr (xs, s)
            | RVec xs \<Rightarrow> Inr (map complex_of_real xs, s)
            | Mat A \<Rightarrow> Inl (TypeError ''array of rank 1 expected''))
      else Inl (TypeError ''no such object''))"

definition read_real :: "nat \<Rightarrow> real list py" where
  "read_real a s =
     (if a < length (heap s)
      then (case heap s ! a of
              RVec xs \<Rightarrow> Inr (xs, s)
            | _ \<Rightarrow> Inl (TypeError ''real array of rank 1 expected''))
      else Inl (TypeError ''no such object''))"

definition read_mat :: "nat \<Rightarrow> real list list py" where
  "read_mat a s =
     (if a < length (heap s)
      then (case heap s ! a of
              Mat A \<Rightarrow> Inr (A, s)
            | _ \<Rightarrow> Inl (TypeError ''array of rank 2 expected''))
      else Inl (TypeError ''no such object''))"

definition h_multiply :: "nat \<Rightarrow> nat \<Rightarrow> nat py" where
  \<comment> \<open>\<open>a * v\<close>\<close>
  "h_multiply a v =
     py_bind (read_data a) (\<lambda>x. py_bind (read_data v) (\<lambda>y.
     py_bind (py_lift (np_multiply x y)) (\<lambda>z. alloc (CVec z))))"

definition h_scale :: "nat \<Rightarrow> real \<Rightarrow> nat py" where
  \<comment> \<open>\<open>v * c\<close> for a real array and a number\<close>
  "h_scale v c = py_bind (read_real v) (\<lambda>x. alloc (RVec (map (\<lambda>t. t * c) x)))"

definition h_divide :: "nat \<Rightarrow> real \<Rightarrow> nat py" where
  \<comment> \<open>\<open>v / c\<close>\<close>
  "h_divide v c = py_bind (read_real v) (\<lambda>x. alloc (RVec (map (\<lambda>t. t / c) x)))"

definition h_reciprocal :: "nat \<Rightarrow> nat py" where
  \<comment> \<open>\<open>1. / v\<close>\<close>
  "h_reciprocal v = py_bind (read_real v) (\<lambda>x. alloc (RVec (map (\<lambda>t. 1 / t) x)))"

definition h_dot :: "nat \<Rightarrow> nat \<Rightarrow> nat py" where
  \<comment> \<open>\<open>np.dot(F, A)\<close>\<close>
  "h_dot F A =
     py_bind (read_data F) (\<lambda>x. py_bind (read_mat A) (\<lambda>B.
     py_bind (py_lift (np_dot x B)) (\<lambda>z. alloc (CVec z))))"

definition h_cuda_dot :: "extern \<Rightarrow> nat \<Rightarrow> nat \<Rightarrow> nat py" where
  \<comment> \<open>\<open>self.cuda_stream.dot(F, A)\<close> followed by \<open>synchronize()\<close>\<close>
  "h_cuda_dot env F A =
     py_bind (read_data F) (\<lambda>x. py_bind (read_mat A) (\<lambda>B.
     py_bind (py_lift (lib (cuda_dot env x B))) (\<lambda>z. alloc (CVec z))))"

definition h_fft :: "nat \<Rightarrow> nat option \<Rightarrow> nat py" where
  \<comment> \<open>\<open>np.fft.fft(a, n)\<close>\<close>
  "h_fft a n_opt =
     py_bind (read_data a) (\<lambda>x. py_bind (py_lift (np_fft x n_opt)) (\<lambda>z. alloc (CVec z)))"

definition h_split_first :: "nat \<Rightarrow> nat py" where
  \<comment> \<open>\<open>np.split(a, 2)[0]\<close>: a new array object; it shares its values with \<open>a\<close>, which nothing
      writes to afterwards\<close>
  "h_split_first a =
     py_bind (read_data a) (\<lambda>x. py_bind (py_lift (np_split2 x)) (\<lambda>(h, t). alloc (CVec h)))"

definition array_multiply_h :: "nat \<Rightarrow> nat \<Rightarrow> int \<Rightarrow> nat py" where
  \<comment> \<open>\<open>r = a\<close> names the same object; \<open>r = r*v\<close> binds \<open>r\<close> to a new one\<close>
  "array_multiply_h a v axis = (let r = a in h_multiply r v)"

definition MDHT_transform_h :: "extern \<Rightarrow> nat \<Rightarrow> nat py" where
  "MDHT_transform_h env F s =
     (case ref_M (this s) of
        None \<Rightarrow> Inl (AttributeError ''M'')
      | Some Mx \<Rightarrow> if ref_use_cuda (this s) then h_cuda_dot env F Mx s else h_dot F Mx s)"

definition MDHT_inverse_transform_h :: "extern \<Rightarrow> nat \<Rightarrow> nat py" where
  "MDHT_inverse_transform_h env G s =
     (if ref_use_cuda (this s) then h_cuda_dot env G (ref_invM (this s)) s
      else h_dot G (ref_invM (this s)) s)"

definition QDHT_transform_h :: "nat \<Rightarrow> nat py" where
  "QDHT_transform_h F =
     py_bind (\<lambda>s. h_scale (ref_J_inv (this s)) (ref_rmax (this s)) s) (\<lambda>v.
     py_bind (array_multiply_h F v (- 1)) (\<lambda>F.
     py_bind (\<lambda>s. h_dot F (ref_T (this s)) s) (\<lambda>G.
     py_bind (\<lambda>s. h_divide (ref_J (this s)) (ref_numax (this s)) s) (\<lambda>v.
     array_multiply_h G v (- 1)))))"

definition QDHT_inverse_transform_h :: "nat \<Rightarrow> nat py" where
  "QDHT_inverse_transform_h G =
     py_bind (\<lambda>s. h_scale (ref_J_inv (this s)) (ref_numax (this s)) s) (\<lambda>v.
     py_bind (array_multiply_h G v (- 1)) (\<lambda>G.
     py_bind (\<lambda>s. h_dot G (ref_T (this s)) s) (\<lambda>F.
     py_bind (\<lambda>s. h_divide (ref_J (this s)) (ref_rmax (this s)) s) (\<lambda>v.
     array_multiply_h F v (- 1)))))"

definition FHT_transform_h :: "nat \<Rightarrow> nat py" where
  "FHT_transform_h F =
     py_bind (\<lambda>s. array_multiply_h F (ref_r (this s)) (- 1) s) (\<lambda>rF.
     py_bind (\<lambda>s. h_fft rF (Some (2 * ref_N (this s))) s) (\<lambda>fft_rF.
     py_bind (\<lambda>s. array_multiply_h fft_rF (ref_fft_j_convol (this s)) (- 1) s) (\<lambda>fft_nuG.
     py_bind (h_fft fft_nuG None) (\<lambda>nuG_large.
     py_bind (h_split_first nuG_large) (\<lambda>nuG.
     py_bind (\<lambda>s. h_reciprocal (ref_nu (this s)) s) (\<lambda>v.
     array_multiply_h nuG v (- 1)))))))"

definition FHT_inverse_transform_h :: "nat \<Rightarrow> nat py" where
  "FHT_inverse_transform_h G =
     py_bind (\<lambda>s. array_multiply_h G (ref_nu (this s)) (- 1) s) (\<lambda>nuG.
     py_bind (\<lambda>s. h_fft nuG (Some (2 * ref_N (this s))) s) (\<lambda>fft_nuG.
     py_bind (\<lambda>s. array_multiply_h fft_nuG (ref_fft_j_convol (this s)) (- 1) s) (\<lambda>fft_rF.
     py_bind (h_fft fft_rF None) (\<lambda>rF_large.
     py_bind (h_split_first rF_large) (\<lambda>rF.
     py_bind (\<lambda>s. h_reciprocal (ref_r (this s)) s) (\<lambda>v.
     array_multiply_h rF v (- 1)))))))"

definition transform_h :: "extern \<Rightarrow> nat \<Rightarrow> nat py" where
  "transform_h env F s =
     (if ref_method (this s) = ''FHT'' then FHT_transform_h F s
      else if ref_method (this s) = ''QDHT'' then QDHT_transform_h F s
      else if ref_method (this s) \<in> set [''MDHT(m,m)'', ''MDHT(m-1,m)'', ''MDHT(m+1,m)'']
      then MDHT_transform_h env F s
      else Inl (UnboundLocalError ''G''))"

definition inverse_transform_h :: "extern \<Rightarrow> nat \<Rightarrow> nat py" where
  "inverse_transform_h env G s =
     (if ref_method (this s) = ''FHT'' then FHT_inverse_transform_h G s
      else if ref_method (this s) = ''QDHT'' then QDHT_inverse_transform_h G s
      else if ref_method (this s) \<in> set [''MDHT(m,m)'', ''MDHT(m-1,m)'', ''MDHT(m+1,m)'']
      then MDHT_inverse_transform_h env G s
      else Inl (UnboundLocalError ''F''))"

definition extends :: "pystate \<Rightarrow> pystate \<Rightarrow> bool" where
  \<comment> \<open>the object and every array that existed are as they were; arrays may have been added\<close>
  "extends s s' \<longleftrightarrow> this s' = this s \<and> (\<exists>new. heap s' = heap s @ new)"

definition allocates :: "nat py \<Rightarrow> bool" where
  \<comment> \<open>whenever the routine returns, nothing that existed has changed and the result is a new
      array of rank 1\<close>
  "allocates m \<longleftrightarrow>
     (\<forall>s a s'. m s = Inr (a, s') \<longrightarrow>
        extends s s' \<and> length (heap s) \<le> a \<and> a < length (heap s') \<and>
        ((\<exists>xs. heap s' ! a = CVec xs) \<or> (\<exists>xs. heap s' ! a = RVec xs)))"

definition data_at :: "cell list \<Rightarrow> nat \<Rightarrow> complex list" where
  \<comment> \<open>the values of the data array at an address\<close>
  "data_at h a =
     (if a < length h
      then (case h ! a of CVec xs \<Rightarrow> xs | RVec xs \<Rightarrow> map complex_of_real xs | Mat A \<Rightarrow> [])
      else [])"

definition real_at :: "cell list \<Rightarrow> nat \<Rightarrow> real list" where
  "real_at h a = (if a < length h then (case h ! a of RVec xs \<Rightarrow> xs | _ \<Rightarrow> []) else [])"

definition mat_at :: "cell list \<Rightarrow> nat \<Rightarrow> real list list" where
  "mat_at h a = (if a < length h then (case h ! a of Mat A \<Rightarrow> A | _ \<Rightarrow> []) else [])"

definition abs_state :: "pystate \<Rightarrow> DHT" where
  \<comment> \<open>the object of the first embedding that a state stands for\<close>
  "abs_state s =
     \<lparr> self_method = ref_method (this s), self_use_cuda = ref_use_cuda (this s),
       self_d = ref_d (this s), self_Fw = ref_Fw (this s), self_p = ref_p (this s),
       self_m = ref_m (this s), self_N = ref_N (this s), self_rmax = ref_rmax (this s),
       self_r = real_at (heap s) (ref_r (this s)), self_nu = real_at (heap s) (ref_nu (this s)),
       self_invM = mat_at (heap s) (ref_invM (this s)),
       self_M = map_option (mat_at (heap s)) (ref_M (this s)),
       self_numax = ref_numax (this s),
       self_J = real_at (heap s) (ref_J (this s)), self_J_inv = real_at (heap s) (ref_J_inv (this s)),
       self_T = mat_at (heap s) (ref_T (this s)),
       self_fft_j_convol = data_at (heap s) (ref_fft_j_convol (this s)) \<rparr>"

definition shapes_ok :: "DHT \<Rightarrow> bool" where
  \<comment> \<open>the arrays of the object have the sizes that the construction for \<open>N\<close> points gives them\<close>
  "shapes_ok dht \<longleftrightarrow>
     (let N = self_N dht in
      if self_method dht = ''FHT''
      then length (self_r dht) = N \<and> length (self_nu dht) = N \<and>
           length (self_fft_j_convol dht) = 2 * N \<and> 0 < N
      else if self_method dht = ''QDHT''
      then length (self_J dht) = N \<and> length (self_J_inv dht) = N \<and> square N (self_T dht)
      else square N (self_invM dht) \<and>
           (case self_M dht of None \<Rightarrow> True | Some Mx \<Rightarrow> square N Mx) \<and>
           \<not> self_use_cuda dht)"

definition is_rvec :: "cell list \<Rightarrow> nat \<Rightarrow> bool" where
  "is_rvec h a \<longleftrightarrow> a < length h \<and> (case h ! a of RVec xs \<Rightarrow> True | _ \<Rightarrow> False)"

definition refs_ok :: "pystate \<Rightarrow> bool" where
  \<comment> \<open>the attributes that the routines of the method read name arrays of the store\<close>
  "refs_ok s \<longleftrightarrow>
     (let t = this s; h = heap s in
      if ref_method t = ''FHT''
      then is_rvec h (ref_r t) \<and> is_rvec h (ref_nu t) \<and> ref_fft_j_convol t < length h
      else if ref_method t = ''QDHT''
      then ref_J_inv t < length h \<and> ref_J t < length h \<and> ref_T t < length h
      else ref_invM t < length h \<and> (case ref_M t of None \<Rightarrow> True | Some a \<Rightarrow> a < length h))"

section \<open>Properties\<close>

subsection \<open>Sequencing\<close>

lemma err_bind_Inl: "err_bind x f = Inl e \<longleftrightarrow> x = Inl e \<or> (\<exists>v. x = Inr v \<and> f v = Inl e)"
  by (cases x) (simp_all add: err_bind_def)

lemma err_bind_Inr: "err_bind x f = Inr y \<longleftrightarrow> (\<exists>v. x = Inr v \<and> f v = Inr y)"
  by (cases x) (simp_all add: err_bind_def)

lemma err_bind_simps [simp]: "err_bind (Inl e) f = Inl e" "err_bind (Inr v) f = f v"
  by (simp_all add: err_bind_def)

lemma lib_simps [simp]: "lib (Inl s) = Inl (LibError s)" "lib (Inr v) = Inr v"
  by (simp_all add: lib_def)

lemma lib_Inr: "lib x = Inr v \<longleftrightarrow> x = Inr v"
  by (cases x) simp_all

lemma lib_not_InvalidOrder: "lib x \<noteq> Inl (InvalidOrder q k)"
  by (cases x) simp_all

subsection \<open>Which errors the constructor raises\<close>

lemma MDHT_zeros_not_InvalidOrder: "MDHT_zeros env m N \<noteq> Inl (InvalidOrder q k)"
  by (simp add: MDHT_zeros_def err_bind_Inl lib_not_InvalidOrder)

lemma MDHT_S_not_InvalidOrder: "MDHT_S env N m alphas \<noteq> Inl (InvalidOrder q k)"
  by (simp add: MDHT_S_def Let_def err_bind_Inl lib_not_InvalidOrder)

lemma MDHT_spatial_not_InvalidOrder:
  "MDHT_spatial env p N rmax m d last_alpha alphas \<noteq> Inl (InvalidOrder q k)"
  by (cases d) (simp_all add: MDHT_spatial_def err_bind_Inl MDHT_S_not_InvalidOrder)

lemma avoid_div0_not_InvalidOrder: "avoid_div0 denom num \<noteq> Inl (InvalidOrder q k)"
  by (simp add: avoid_div0_def)

lemma MDHT_forward_not_InvalidOrder:
  "MDHT_forward env p m rmax Fw S last_alpha r denom num invM \<noteq> Inl (InvalidOrder q k)"
  by (simp add: MDHT_forward_def Let_def err_bind_Inl lib_not_InvalidOrder split: prod.splits)

lemma MDHT_init_InvalidOrder:
  "m \<in> set [p - 1, p, p + 1] \<Longrightarrow> MDHT_init env self p N rmax m d Fw \<noteq> Inl (InvalidOrder q k)"
  unfolding MDHT_init_def Let_def
  by (simp add: err_bind_Inl MDHT_zeros_not_InvalidOrder MDHT_spatial_not_InvalidOrder
        avoid_div0_not_InvalidOrder MDHT_forward_not_InvalidOrder split: prod.splits)

lemma QDHT_init_not_InvalidOrder: "QDHT_init env self p N rmax \<noteq> Inl (InvalidOrder q k)"
  by (simp add: QDHT_init_def Let_def err_bind_Inl lib_not_InvalidOrder)

lemma FHT_init_not_InvalidOrder: "FHT_init env self p N rmax \<noteq> Inl (InvalidOrder q k)"
  by (simp add: FHT_init_def Let_def err_bind_Inl np_ifft_def)

lemma MDHT_kw_not_InvalidOrder: "MDHT_kw kw \<noteq> Inl (InvalidOrder q k)"
  by (simp add: MDHT_kw_def)

subsection \<open>What a successful MDHT\_init has computed\<close>

lemma MDHT_init_unfold:
  "MDHT_init env self p N rmax m d Fw =
     (if m \<notin> set [p - 1, p, p + 1] then Inl (InvalidOrder p m)
      else err_bind (MDHT_zeros env m N) (\<lambda>zeros.
        if zeros = [] then Inl IndexError
        else if rmax = 0 then Inl ZeroDivisionError
        else err_bind (MDHT_spatial env p N rmax m d (last zeros) (butlast zeros)) (\<lambda>(r, S).
          err_bind (avoid_div0 (MDHT_denom env p m rmax (butlast zeros))
                      (MDHT_num env p r (MDHT_nu rmax (butlast zeros)))) (\<lambda>denom.
          err_bind (MDHT_forward env p m rmax Fw S (last zeros) r denom
                      (MDHT_num env p r (MDHT_nu rmax (butlast zeros)))
                      (divide_rows (MDHT_num env p r (MDHT_nu rmax (butlast zeros))) denom))
            (\<lambda>(Mo, invM).
               Inr (self\<lparr> self_d := d, self_Fw := Fw, self_p := p, self_m := m, self_N := N,
                  self_rmax := rmax, self_nu := MDHT_nu rmax (butlast zeros), self_r := r,
                  self_invM := invM, self_M := Mo \<rparr>))))))"
  unfolding MDHT_init_def Let_def by (simp cong: if_cong)

lemma MDHT_init_InrD:
  assumes "MDHT_init env self p N rmax m d Fw = Inr dht"
  obtains zeros r S denom Mo invM where
    "m \<in> set [p - 1, p, p + 1]"
    "MDHT_zeros env m N = Inr zeros" "zeros \<noteq> []" "rmax \<noteq> 0"
    "MDHT_spatial env p N rmax m d (last zeros) (butlast zeros) = Inr (r, S)"
    "avoid_div0 (MDHT_denom env p m rmax (butlast zeros))
       (MDHT_num env p r (MDHT_nu rmax (butlast zeros))) = Inr denom"
    "MDHT_forward env p m rmax Fw S (last zeros) r denom
       (MDHT_num env p r (MDHT_nu rmax (butlast zeros)))
       (divide_rows (MDHT_num env p r (MDHT_nu rmax (butlast zeros))) denom) = Inr (Mo, invM)"
    "dht = self\<lparr> self_d := d, self_Fw := Fw, self_p := p, self_m := m, self_N := N,
                  self_rmax := rmax, self_nu := MDHT_nu rmax (butlast zeros), self_r := r,
                  self_invM := invM, self_M := Mo \<rparr>"
  using assms unfolding MDHT_init_unfold
  by (auto simp add: err_bind_Inr split: if_splits)

subsection \<open>The reference environment\<close>

lemma bessel_ref_0_0: "bessel_ref 0 0 = 1"
  by (simp add: bessel_ref_def eval_nat_numeral)

lemma bessel_ref_pos_0: "n \<noteq> 0 \<Longrightarrow> bessel_ref n 0 = 0"
  by (simp add: bessel_ref_def Let_def zero_power)

lemma ref_env_simps [simp]:
  "jn ref_env = bessel_ref" "jn_zeros ref_env = jn_zeros_ref" "linalg_inv ref_env = linalg_inv_ref"
  "cuda_installed ref_env = False"
  by (simp_all add: ref_env_def)

lemma jn_zeros_ref_1: "jn_zeros_ref m (Suc 0) = Inr [(2 * real (nat \<bar>m\<bar>) + 3) * (355 / 452)]"
  by (simp add: jn_zeros_ref_def)

lemma jn_zeros_ref_2:
  "jn_zeros_ref m (Suc (Suc 0)) =
     Inr [(2 * real (nat \<bar>m\<bar>) + 3) * (355 / 452), (2 * real (nat \<bar>m\<bar>) + 7) * (355 / 452)]"
  by (simp add: jn_zeros_ref_def upt_rec)

lemma MDHT_example_0_1:
  "\<exists>X. MDHT_init ref_env new_self 0 1 1 1 (PyFloat (1/2)) (PyStr ''inverse'') = Inr X"
  by (simp add: MDHT_init_unfold MDHT_zeros_def include_0_def jn_zeros_ref_1
     MDHT_nu_def MDHT_spatial_def arange_def MDHT_denom_def MDHT_num_def avoid_div0_def all_zero_def
     divide_rows_def MDHT_forward_def linalg_inv_ref_def bessel_ref_0_0 p_denom_of_def)

subsection \<open>The method string\<close>

text \<open>
  C1. The constructor is claimed to accept \<open>'FHT'\<close> together with \<open>'QDHT'\<close> and the three
  \<open>'MDHT'\<close> strings. The list \<open>available_methods\<close> does not contain \<open>'FHT'\<close>: the constructor
  raises the ValueError for an illegal method string on it, for every other argument, and the
  branch \<open>self.method == 'FHT'\<close> of the dispatch is never reached.
\<close>

theorem DHT_init_FHT_illegal:
  "DHT_init env p N rmax ''FHT'' use_cuda kw = Inl IllegalMethod"
  by (simp add: DHT_init_def available_methods_def)

subsection \<open>The auxiliary order\<close>

text \<open>
  C10. The constructor never raises the ValueError of the check of \<open>m\<close> in \<open>MDHT_init\<close>,
  whatever the order, the size, the radius, the method string and the keyword arguments are:
  the dispatch passes \<open>p\<close>, \<open>p + 1\<close> or \<open>p - 1\<close>, and a keyword \<open>m\<close> is a TypeError of the call.
\<close>

theorem DHT_init_never_InvalidOrder:
  "DHT_init env p N rmax method use_cuda kw \<noteq> Inl (InvalidOrder q k)"
  unfolding DHT_init_def Let_def
  by (simp add: err_bind_Inl MDHT_kw_not_InvalidOrder MDHT_init_InvalidOrder
        QDHT_init_not_InvalidOrder FHT_init_not_InvalidOrder split: prod.splits)

subsection \<open>The zero that is prepended\<close>

text \<open>
  C3, as stated, fails: for \<open>p = 1\<close> and the auxiliary order \<open>m = p - 1 = 0\<close> (method
  \<open>'MDHT(m+1,m)'\<close>) the code takes the first \<open>N + 1\<close> positive zeros and prepends nothing,
  where the statement prepends zero.
\<close>

theorem MDHT_zeros_neighbour_counterexample:
  "(0::int) = 1 - 1 \<and> MDHT_zeros ref_env 0 1 \<noteq> spec_zeros ref_env 1 0 1 \<and>
   MDHT_zeros ref_env 0 1 = Inr [1065 / 452, 2485 / 452]"
  by (simp add: MDHT_zeros_def spec_zeros_def include_0_def jn_zeros_ref_1 jn_zeros_ref_2)

text \<open>
  C3, amended. Zero is prepended exactly when the auxiliary order itself is \<open>-1\<close> or \<open>1\<close>,
  whatever \<open>p\<close> is: the zeros are then 0 followed by \<open>jn_zeros(m, N)\<close> and the first value of
  the frequency grid is 0; for every other \<open>m\<close> the zeros are \<open>jn_zeros(m, N + 1)\<close>. In both
  cases the frequency grid is built from all the zeros but the last.
\<close>

theorem MDHT_init_zero_prepended:
  assumes "MDHT_init env self p N rmax m d Fw = Inr dht"
  shows "(m = - 1 \<or> m = 1 \<longrightarrow>
           (\<exists>zs. jn_zeros env m N = Inr zs \<and> MDHT_zeros env m N = Inr (0 # zs) \<and>
                 self_nu dht = MDHT_nu rmax (butlast (0 # zs)) \<and>
                 (zs \<noteq> [] \<longrightarrow> self_nu dht ! 0 = 0))) \<and>
         (m \<noteq> - 1 \<and> m \<noteq> 1 \<longrightarrow>
           (\<exists>zs. jn_zeros env m (N + 1) = Inr zs \<and> MDHT_zeros env m N = Inr zs \<and>
                 self_nu dht = MDHT_nu rmax (butlast zs)))"
proof -
  from assms obtain zeros where z: "MDHT_zeros env m N = Inr zeros"
    and nu: "self_nu dht = MDHT_nu rmax (butlast zeros)"
    by (rule MDHT_init_InrD) simp
  show ?thesis
  proof (cases "m = - 1 \<or> m = 1")
    case True
    with z obtain zs where "jn_zeros env m N = Inr zs" "zeros = 0 # zs"
      by (auto simp add: MDHT_zeros_def include_0_def err_bind_Inr lib_Inr)
    with True z nu show ?thesis
      by (cases zs) (auto simp add: MDHT_nu_def)
  next
    case False
    with z have "jn_zeros env m (N + 1) = Inr zeros"
      by (auto simp add: MDHT_zeros_def include_0_def lib_Inr)
    with False z nu show ?thesis by auto
  qed
qed

theorem MDHT_init_zero_prepended_witness:
  "\<exists>dht. MDHT_init ref_env new_self 0 1 1 1 (PyFloat (1/2)) (PyStr ''inverse'') = Inr dht \<and>
     MDHT_zeros ref_env 1 1 = Inr [0, 1775 / 452] \<and> get_nu dht = [0]"
proof -
  from MDHT_example_0_1 obtain X where
    X: "MDHT_init ref_env new_self 0 1 1 1 (PyFloat (1/2)) (PyStr ''inverse'') = Inr X" ..
  from MDHT_init_zero_prepended [OF X] show ?thesis
    using X by (auto simp add: jn_zeros_ref_1 MDHT_nu_def get_nu_def)
qed


lemma b1b: "bessel_ref 1 (1065/452) \<noteq> 0"
  by (simp add: bessel_ref_def eval_nat_numeral)

lemma length_MDHT_num [simp]: "length (MDHT_num env p r nu) = length nu"
  by (simp add: MDHT_num_def)

lemma length_MDHT_denom [simp]: "length (MDHT_denom env p m rmax alphas) = length alphas"
  by (simp add: MDHT_denom_def)

lemma length_MDHT_nu [simp]: "length (MDHT_nu rmax alphas) = length alphas"
  by (simp add: MDHT_nu_def)


lemma length_divide_rows [simp]: "length (divide_rows num denom) = min (length num) (length denom)"
  by (simp add: divide_rows_def)



lemma avoid_div0_Inr:
  "avoid_div0 denom num = Inr denom' \<longleftrightarrow>
   denom \<noteq> [] \<and> denom' = (if denom ! 0 = 0 \<and> all_zero (num ! 0) then denom[0 := 1] else denom)"
  by (auto simp add: avoid_div0_def)






lemma b1c: "bessel_ref 1 (1775/904) \<noteq> 0"
  by (simp add: bessel_ref_def eval_nat_numeral)

lemma b2a: "bessel_ref 2 (1775/452) \<noteq> 0"
  by (simp add: bessel_ref_def eval_nat_numeral)

lemma pi_cancel: "2 * pi * x * (1 / (2 * pi * rmax) * y) = x * y / rmax"
  by (simp add: field_simps)

lemmas MDHT_eval =
  MDHT_init_unfold MDHT_zeros_def include_0_def jn_zeros_ref_1 jn_zeros_ref_2
  MDHT_nu_def MDHT_spatial_def arange_def MDHT_denom_def MDHT_num_def avoid_div0_def all_zero_def
  divide_rows_def MDHT_forward_def MDHT_corrected_def linalg_inv_ref_def p_denom_of_def
  bessel_ref_0_0 bessel_ref_pos_0

lemmas DHT_eval = DHT_init_def available_methods_def MDHT_kw_def new_self_def



lemma MDHT_forward_inverse_Inr:
  assumes "MDHT_forward env p m rmax (PyStr ''inverse'') S last_alpha r denom num invM = Inr (Mo, invM')"
  shows "if m \<in> set include_0 \<and> p \<noteq> 0
         then \<exists>Mx. linalg_inv env (MDHT_corrected env p m rmax last_alpha r denom num) = Inr Mx \<and>
                Mo = Some Mx \<and>
                invM' = (MDHT_corrected env p m rmax last_alpha r denom num)
                          [0 := map (\<lambda>_. 0) (MDHT_corrected env p m rmax last_alpha r denom num ! 0)]
         else \<exists>Mx. linalg_inv env invM = Inr Mx \<and> Mo = Some Mx \<and> invM' = invM"
  using assms unfolding MDHT_forward_def Let_def
  by (auto simp add: err_bind_Inr lib_Inr split: if_splits)


lemma np_dot_square:
  assumes "square n A" "length F = n"
  shows "np_dot F A = Inr (map (\<lambda>j. \<Sum>i<n. F ! i * complex_of_real (A ! i ! j)) [0..<n])"
proof (cases A)
  case Nil
  with assms show ?thesis by (simp add: np_dot_def square_def)
next
  case (Cons row rows)
  with assms have "length row = n" by (simp add: square_def)
  with assms Cons show ?thesis by (simp add: np_dot_def square_def)
qed

lemma np_dot_np_dot:
  assumes B: "square n B" and A: "square n A" and F: "length F = n"
    and id: "\<forall>i<n. \<forall>k<n. (\<Sum>j<n. B ! i ! j * A ! j ! k) = (if i = k then 1 else 0)"
  shows "err_bind (np_dot F B) (\<lambda>G. np_dot G A) = Inr F"
proof -
  let ?G = "map (\<lambda>j. \<Sum>i<n. F ! i * complex_of_real (B ! i ! j)) [0..<n]"
  have 1: "np_dot F B = Inr ?G" using B F by (rule np_dot_square)
  have 2: "np_dot ?G A = Inr (map (\<lambda>k. \<Sum>j<n. ?G ! j * complex_of_real (A ! j ! k)) [0..<n])"
    using A by (rule np_dot_square) simp
  have "map (\<lambda>k. \<Sum>j<n. ?G ! j * complex_of_real (A ! j ! k)) [0..<n] = F"
  proof (rule nth_equalityI)
    show "length (map (\<lambda>k. \<Sum>j<n. ?G ! j * complex_of_real (A ! j ! k)) [0..<n]) = length F"
      using F by simp
  next
    fix k assume "k < length (map (\<lambda>k. \<Sum>j<n. ?G ! j * complex_of_real (A ! j ! k)) [0..<n])"
    then have k: "k < n" by simp
    have "(\<Sum>j<n. ?G ! j * complex_of_real (A ! j ! k)) =
          (\<Sum>j<n. \<Sum>i<n. F ! i * complex_of_real (B ! i ! j) * complex_of_real (A ! j ! k))"
      by (rule sum.cong) (simp_all add: sum_distrib_right)
    also have "\<dots> = (\<Sum>i<n. \<Sum>j<n. F ! i * complex_of_real (B ! i ! j) * complex_of_real (A ! j ! k))"
      by (rule sum.swap)
    also have "\<dots> = (\<Sum>i<n. F ! i * complex_of_real (\<Sum>j<n. B ! i ! j * A ! j ! k))"
      by (rule sum.cong) (simp_all add: sum_distrib_left mult.assoc)
    also have "\<dots> = (\<Sum>i<n. F ! i * complex_of_real (if i = k then 1 else 0))"
      using id k by (intro sum.cong) simp_all
    also have "\<dots> = (\<Sum>i<n. if i = k then F ! i else 0)"
      by (rule sum.cong) simp_all
    also have "\<dots> = F ! k" using k by simp
    finally show "map (\<lambda>k. \<Sum>j<n. ?G ! j * complex_of_real (A ! j ! k)) [0..<n] ! k = F ! k"
      using k by simp
  qed
  with 1 2 show ?thesis by simp
qed

lemma frac_a: "x * (y / D) + z * (- (w / D)) = (x * y - z * w) / (D::real)"
  by (simp add: diff_divide_distrib)

lemma frac_b: "x * (- (w / D)) + z * (y / D) = (z * y - x * w) / (D::real)"
  by (simp add: diff_divide_distrib)

lemma frac_c: "y / D * x + - (w / D) * z = (y * x - w * z) / (D::real)"
  by (simp add: diff_divide_distrib)

lemma frac_d: "- (w / D) * x + y / D * z = (y * z - w * x) / (D::real)"
  by (simp add: diff_divide_distrib)

lemma inv_spec_ref_env: "inv_spec ref_env"
  unfolding inv_spec_def
proof (intro allI impI)
  fix A B assume "linalg_inv ref_env A = Inr B"
  then have AB: "linalg_inv_ref A = Inr B" by simp
  then consider a where "A = [[a]]" "a \<noteq> 0" "B = [[1 / a]]"
    | a b c e where "A = [[a, b], [c, e]]" "a * e - b * c \<noteq> 0"
        "B = [[e / (a * e - b * c), - b / (a * e - b * c)],
              [- c / (a * e - b * c), a / (a * e - b * c)]]"
    by (auto simp add: linalg_inv_ref_def split: list.splits if_splits)
  then show "inverse_pair A B"
  proof cases
    case 1
    then show ?thesis by (simp add: inverse_pair_def square_def)
  next
    case 2
    from 2(2) have d: "a * e - b * c \<noteq> 0" .
    have one: "a * e / (a * e - b * c) - b * c / (a * e - b * c) = 1"
      unfolding diff_divide_distrib [symmetric] using d by simp
    have ar: "a * (e / (a * e - b * c)) + b * (- (c / (a * e - b * c))) = 1"
      "a * (- (b / (a * e - b * c))) + b * (a / (a * e - b * c)) = 0"
      "c * (e / (a * e - b * c)) + e * (- (c / (a * e - b * c))) = 0"
      "c * (- (b / (a * e - b * c))) + e * (a / (a * e - b * c)) = 1"
      "e / (a * e - b * c) * a + - (b / (a * e - b * c)) * c = 1"
      "e / (a * e - b * c) * b + - (b / (a * e - b * c)) * e = 0"
      "- (c / (a * e - b * c)) * a + a / (a * e - b * c) * c = 0"
      "- (c / (a * e - b * c)) * b + a / (a * e - b * c) * e = 1"
      using d by (simp_all add: frac_a frac_b frac_c frac_d mult.commute one)
    show ?thesis
      unfolding inverse_pair_def Let_def 2(1,3)
      by (simp add: square_def All_less_Suc ar one mult.commute [of e a] mult.commute [of c b])
  qed
qed








lemma DHT_init_MDHT_D:
  assumes "DHT_init env p N rmax method use_cuda kw = Inr dht"
    and "method \<in> set [''MDHT(m,m)'', ''MDHT(m-1,m)'', ''MDHT(m+1,m)'']"
  obtains d Fw m where "MDHT_kw kw = Inr (d, Fw)"
    "m = (if method = ''MDHT(m,m)'' then p else if method = ''MDHT(m-1,m)'' then p + 1 else p - 1)"
    "MDHT_init env (new_self\<lparr> self_method := method,
        self_use_cuda := use_cuda \<and> cuda_installed env \<rparr>) p N rmax m d Fw = Inr dht"
proof -
  have self: "(if use_cuda \<and> \<not> cuda_installed env
          then new_self\<lparr> self_method := method, self_use_cuda := False \<rparr>
          else new_self\<lparr> self_method := method, self_use_cuda := use_cuda \<rparr>) =
        new_self\<lparr> self_method := method, self_use_cuda := use_cuda \<and> cuda_installed env \<rparr>"
    by auto
  from assms show thesis
    unfolding DHT_init_def Let_def
    by (auto simp add: available_methods_def err_bind_Inr self intro: that split: if_splits)
qed

lemma MDHT_init_fields:
  assumes "MDHT_init env self p N rmax m d Fw = Inr dht"
  shows "self_method dht = self_method self" "self_use_cuda dht = self_use_cuda self"
    "self_Fw dht = Fw" "self_m dht = m" "self_p dht = p" "self_N dht = N" "self_d dht = d"
    "self_rmax dht = rmax"
  using assms by (auto elim!: MDHT_init_InrD)

lemma MDHT_init_plain_inverse:
  assumes init: "MDHT_init env self p N rmax m d (PyStr ''inverse'') = Inr dht"
    and plain: "\<not> (m \<in> set include_0 \<and> p \<noteq> 0)"
  obtains Mx where "linalg_inv env (self_invM dht) = Inr Mx" "self_M dht = Some Mx"
    "length (self_invM dht) = length (self_nu dht)" "self_invM dht \<noteq> []"
    "\<forall>row \<in> set (self_invM dht). length row = length (self_r dht)"
proof -
  from init obtain zeros r S denom Mo invM' where
    av: "avoid_div0 (MDHT_denom env p m rmax (butlast zeros))
       (MDHT_num env p r (MDHT_nu rmax (butlast zeros))) = Inr denom" and
    fw: "MDHT_forward env p m rmax (PyStr ''inverse'') S (last zeros) r denom
       (MDHT_num env p r (MDHT_nu rmax (butlast zeros)))
       (divide_rows (MDHT_num env p r (MDHT_nu rmax (butlast zeros))) denom) = Inr (Mo, invM')" and
    dht: "dht = self\<lparr> self_d := d, self_Fw := PyStr ''inverse'', self_p := p, self_m := m, self_N := N,
                  self_rmax := rmax, self_nu := MDHT_nu rmax (butlast zeros), self_r := r,
                  self_invM := invM', self_M := Mo \<rparr>"
    by (rule MDHT_init_InrD)
  define num where "num = MDHT_num env p r (MDHT_nu rmax (butlast zeros))"
  have ne: "denom \<noteq> []" and ln: "length denom = length num"
    using av by (auto simp add: avoid_div0_Inr num_def)
  from MDHT_forward_inverse_Inr [OF fw] plain obtain Mx where
    Mx: "linalg_inv env (divide_rows num denom) = Inr Mx" "Mo = Some Mx"
      "invM' = divide_rows num denom"
    by (auto simp add: num_def)
  have len: "length (divide_rows num denom) = length (MDHT_nu rmax (butlast zeros))"
    using ln by (simp add: num_def)
  have nonempty: "divide_rows num denom \<noteq> []"
    using ne ln by (auto simp add: divide_rows_def)
  have rows: "\<forall>row \<in> set (divide_rows num denom). length row = length r"
    by (auto simp add: divide_rows_def num_def MDHT_num_def set_zip)
  show thesis
    by (rule that [of Mx]) (use Mx len nonempty rows in \<open>simp_all add: dht\<close>)
qed

text \<open>
  The construction that does not correct the first row keeps the round trip. For an instance
  of the matrix family built by the constructor with \<open>Fw = 'inverse'\<close> whose first row is not
  corrected (the auxiliary order is not \<open>-1\<close> or \<open>1\<close>, or \<open>p = 0\<close>), on the CPU path, in exact
  arithmetic and with an inversion routine that returns a two-sided inverse or raises: the
  inverse transform of the transform of \<open>F\<close> is \<open>F\<close> for every \<open>F\<close> as long as the grid \<open>r\<close>,
  and the transform of the inverse transform of \<open>G\<close> is \<open>G\<close> for every \<open>G\<close> as long as the grid
  \<open>nu\<close>.
\<close>

theorem MDHT_round_trip:
  assumes spec: "inv_spec env"
    and init: "DHT_init env p N rmax method use_cuda kw = Inr dht"
    and meth: "method \<in> set [''MDHT(m,m)'', ''MDHT(m-1,m)'', ''MDHT(m+1,m)'']"
    and Fw: "self_Fw dht = PyStr ''inverse''"
    and plain: "\<not> (self_m dht \<in> set include_0 \<and> self_p dht \<noteq> 0)"
    and cpu: "\<not> self_use_cuda dht"
    and F: "length F = length (get_r dht)"
    and G: "length G = length (get_nu dht)"
  shows "err_bind (transform env dht F) (inverse_transform env dht) = Inr F \<and>
         err_bind (inverse_transform env dht G) (transform env dht) = Inr G"
proof -
  from init meth obtain d Fw' m where
    mi: "MDHT_init env (new_self\<lparr> self_method := method,
        self_use_cuda := use_cuda \<and> cuda_installed env \<rparr>) p N rmax m d Fw' = Inr dht"
    by (rule DHT_init_MDHT_D)
  note fields = MDHT_init_fields [OF mi]
  from fields Fw have Fw': "Fw' = PyStr ''inverse''" by simp
  from fields plain have plain': "\<not> (m \<in> set include_0 \<and> p \<noteq> 0)" by simp
  from mi [unfolded Fw'] plain' obtain Mx where
    inv: "linalg_inv env (self_invM dht) = Inr Mx" and M: "self_M dht = Some Mx" and
    len: "length (self_invM dht) = length (self_nu dht)" and ne: "self_invM dht \<noteq> []" and
    rows: "\<forall>row \<in> set (self_invM dht). length row = length (self_r dht)"
    by (rule MDHT_init_plain_inverse)
  define n where "n = length (self_invM dht)"
  from spec inv have pair: "inverse_pair (self_invM dht) Mx"
    by (simp add: inv_spec_def)
  then have sqA: "square n (self_invM dht)" and sqM: "square n Mx"
    and id1: "\<forall>i<n. \<forall>k<n. (\<Sum>j<n. self_invM dht ! i ! j * Mx ! j ! k) = (if i = k then 1 else 0)"
    and id2: "\<forall>i<n. \<forall>k<n. (\<Sum>j<n. Mx ! i ! j * self_invM dht ! j ! k) = (if i = k then 1 else 0)"
    by (simp_all add: inverse_pair_def Let_def n_def)
  from ne obtain row where "row \<in> set (self_invM dht)" by (cases "self_invM dht") auto
  with sqA rows have nr: "length (self_r dht) = n" by (auto simp add: square_def)
  from len have nn: "length (self_nu dht) = n" by (simp add: n_def)
  have m: "self_method dht = method" using fields by simp
  have tr: "transform env dht = (\<lambda>F. np_dot F Mx)"
    using meth m M cpu by (auto simp add: transform_def MDHT_transform_def fun_eq_iff)
  have it: "inverse_transform env dht = (\<lambda>G. np_dot G (self_invM dht))"
    using meth m cpu by (auto simp add: inverse_transform_def MDHT_inverse_transform_def fun_eq_iff)
  have "err_bind (np_dot F Mx) (\<lambda>G. np_dot G (self_invM dht)) = Inr F"
    using sqM sqA _ id2 by (rule np_dot_np_dot) (use F nr in \<open>simp add: get_r_def\<close>)
  moreover have "err_bind (np_dot G (self_invM dht)) (\<lambda>F. np_dot F Mx) = Inr G"
    using sqA sqM _ id1 by (rule np_dot_np_dot) (use G nn in \<open>simp add: get_nu_def\<close>)
  ultimately show ?thesis by (simp add: tr it)
qed

lemma b0a: "bessel_ref 0 (1065/904) \<noteq> 0"
  by (simp add: bessel_ref_def eval_nat_numeral)

lemma DHT_example_0_0:
  "DHT_init ref_env 0 1 1 ''MDHT(m,m)'' False [] =
     Inr (new_self\<lparr> self_method := ''MDHT(m,m)'',
        self_d := PyFloat (1/2), self_Fw := PyStr ''inverse'', self_p := 0, self_m := 0,
        self_N := 1, self_rmax := 1, self_nu := [1065 / 452 / (2 * pi)], self_r := [1/2],
        self_invM := [[bessel_ref 0 (1065/904) / (pi * (bessel_ref 1 (1065/452))\<^sup>2)]],
        self_M := Some [[pi * (bessel_ref 1 (1065/452))\<^sup>2 / bessel_ref 0 (1065/904)]] \<rparr>)"
  by (simp add: DHT_eval MDHT_eval b0a b1b pi_cancel)

lemma DHT_example_1_1:
  "DHT_init ref_env 1 1 1 ''MDHT(m,m)'' False [] =
     Inr (new_self\<lparr> self_method := ''MDHT(m,m)'',
        self_d := PyFloat (1/2), self_Fw := PyStr ''inverse'', self_p := 1, self_m := 1,
        self_N := 1, self_rmax := 1, self_nu := [0], self_r := [1/2], self_invM := [[0]],
        self_M := Some [[pi * (bessel_ref 2 (1775/452))\<^sup>2 / bessel_ref 1 (1775/904)]] \<rparr>)"
  by (simp add: DHT_eval MDHT_eval b1c b2a)

text \<open>
  C2. The round trip is claimed for every instance of the matrix family, and the docstring
  of the module says of the method that the succession of a forward and a backward
  transformation retrieves the original function. On the instance that the constructor
  builds for \<open>p = 1\<close>, \<open>N = 1\<close>, \<open>rmax = 1\<close> and method \<open>'MDHT(m,m)'\<close> it is lost: the first row of
  the stored \<open>invM\<close> is put back to zero after the inversion, the inverse transform of anything
  is 0, and the round trip of the array \<open>[1]\<close>, which is as long as the grid, is \<open>[0]\<close>.
\<close>

theorem MDHT_round_trip_lost:
  "(case DHT_init ref_env 1 1 1 ''MDHT(m,m)'' False [] of
      Inl e \<Rightarrow> False
    | Inr dht \<Rightarrow> length [1::complex] = length (get_r dht) \<and>
        err_bind (transform ref_env dht [1]) (inverse_transform ref_env dht) = Inr [0] \<and>
        [0] \<noteq> [1::complex])"
  by (simp only: DHT_example_1_1 sum.case)
     (simp add: new_self_def get_r_def transform_def inverse_transform_def MDHT_transform_def
        MDHT_inverse_transform_def np_dot_def)

text \<open>
  The round trip that is kept, at \<open>p = m = 0\<close>, \<open>N = 1\<close>.
\<close>

theorem MDHT_round_trip_witness:
  "inv_spec ref_env \<and>
   (\<exists>dht. DHT_init ref_env 0 1 1 ''MDHT(m,m)'' False [] = Inr dht \<and>
      self_Fw dht = PyStr ''inverse'' \<and> \<not> (self_m dht \<in> set include_0 \<and> self_p dht \<noteq> 0) \<and>
      \<not> self_use_cuda dht \<and> length [2::complex] = length (get_r dht) \<and>
      length [3::complex] = length (get_nu dht) \<and>
      err_bind (transform ref_env dht [2]) (inverse_transform ref_env dht) = Inr [2] \<and>
      err_bind (inverse_transform ref_env dht [3]) (transform ref_env dht) = Inr [3])"
proof -
  let ?dht = "new_self\<lparr> self_method := ''MDHT(m,m)'',
        self_d := PyFloat (1/2), self_Fw := PyStr ''inverse'', self_p := 0, self_m := 0,
        self_N := 1, self_rmax := 1, self_nu := [1065 / 452 / (2 * pi)], self_r := [1/2],
        self_invM := [[bessel_ref 0 (1065/904) / (pi * (bessel_ref 1 (1065/452))\<^sup>2)]],
        self_M := Some [[pi * (bessel_ref 1 (1065/452))\<^sup>2 / bessel_ref 0 (1065/904)]] \<rparr>"
  have h: "self_Fw ?dht = PyStr ''inverse''"
    "\<not> (self_m ?dht \<in> set include_0 \<and> self_p ?dht \<noteq> 0)"
    "\<not> self_use_cuda ?dht" "length [2::complex] = length (get_r ?dht)"
    "length [3::complex] = length (get_nu ?dht)"
    "''MDHT(m,m)'' \<in> set [''MDHT(m,m)'', ''MDHT(m-1,m)'', ''MDHT(m+1,m)'']"
    by (simp_all add: new_self_def get_r_def get_nu_def)
  from MDHT_round_trip [OF inv_spec_ref_env DHT_example_0_0 h(6) h(1) h(2) h(3) h(4) h(5)]
  show ?thesis using h inv_spec_ref_env DHT_example_0_0 by blast
qed

lemma sorted_wrt_map_strict:
  assumes "sorted_wrt (\<lambda>x y. x < y) xs" and "\<And>x y. x < y \<Longrightarrow> f x < (f y :: real)"
  shows "sorted_wrt (\<lambda>x y. x < y) (map f xs)"
  using assms by (induction xs) (auto simp add: sorted_wrt_map)

lemma sorted_wrt_arange: "sorted_wrt (\<lambda>x y. x < y) (arange n)"
  unfolding arange_def by (simp add: sorted_wrt_map)

lemma sorted_wrt_butlast: "sorted_wrt P xs \<Longrightarrow> sorted_wrt P (butlast xs)"
  by (simp add: butlast_conv_take sorted_wrt_take)

lemma grid_ok_scaled:
  assumes "sorted_wrt (\<lambda>x y. x < y) xs" "length xs = N" "0 < c" "xs \<noteq> [] \<longrightarrow> 0 \<le> xs ! 0"
  shows "grid_ok N (map (\<lambda>a. c * a) xs)"
  unfolding grid_ok_def
proof (intro conjI impI)
  show "length (map (\<lambda>a. c * a) xs) = N" using assms by simp
  show "sorted_wrt (\<lambda>x y. x < y) (map (\<lambda>a. c * a) xs)"
    using assms(1) by (rule sorted_wrt_map_strict) (use assms(3) in simp)
  assume "map (\<lambda>a. c * a) xs \<noteq> []"
  then have "xs \<noteq> []" by simp
  with assms show "0 \<le> map (\<lambda>a. c * a) xs ! 0" by (cases xs) auto
qed

lemma alphas_ok:
  assumes "sorted_wrt (\<lambda>x y. x < y) zeros" "\<forall>z \<in> set zeros. 0 \<le> z" "zeros \<noteq> []"
  shows "sorted_wrt (\<lambda>x y. x < y) (butlast zeros)"
    "butlast zeros \<noteq> [] \<longrightarrow> 0 \<le> butlast zeros ! 0"
    "length (butlast zeros) = length zeros - 1"
proof -
  show "sorted_wrt (\<lambda>x y. x < y) (butlast zeros)"
    using assms(1) by (rule sorted_wrt_butlast)
  show "butlast zeros \<noteq> [] \<longrightarrow> 0 \<le> butlast zeros ! 0"
  proof
    assume "butlast zeros \<noteq> []"
    then have "butlast zeros ! 0 \<in> set (butlast zeros)" by (simp del: length_butlast)
    then have "butlast zeros ! 0 \<in> set zeros" by (rule in_set_butlastD)
    with assms(2) show "0 \<le> butlast zeros ! 0" by blast
  qed
  show "length (butlast zeros) = length zeros - 1" by simp
qed

lemma QDHT_grid_ok:
  assumes spec: "zeros_spec env" and rmax: "0 < rmax"
    and init: "QDHT_init env self p N rmax = Inr dht"
  shows "grid_ok N (self_r dht) \<and> grid_ok N (self_nu dht)"
proof -
  from init obtain zeros where z: "jn_zeros env p (N + 1) = Inr zeros" and zne: "zeros \<noteq> []"
    and dht: "dht = QDHT_build env self p N rmax zeros"
    unfolding QDHT_init_def by (auto simp add: err_bind_Inr lib_Inr split: if_splits)
  have r: "self_r dht = map (\<lambda>a. rmax * a / last zeros) (butlast zeros)"
    and nu: "self_nu dht = map (\<lambda>a. last zeros / (2 * pi * rmax) * a / last zeros) (butlast zeros)"
    by (simp_all add: dht QDHT_build_def Let_def)
  from spec z have len: "length zeros = N + 1" and srt: "sorted_wrt (\<lambda>x y. x < y) zeros"
    and pos: "\<forall>z \<in> set zeros. 0 < z"
    by (auto simp add: zeros_spec_def)
  from pos zne have lpos: "0 < last zeros" by simp
  from pos have nonneg: "\<forall>z \<in> set zeros. 0 \<le> z" by (auto intro: less_imp_le)
  note a = alphas_ok [OF srt nonneg zne]
  have la: "length (butlast zeros) = N" using len by simp
  have g1: "grid_ok N (map (\<lambda>a. (rmax / last zeros) * a) (butlast zeros))"
    using a(1) la _ a(2) by (rule grid_ok_scaled) (use rmax lpos in simp)
  have g2: "grid_ok N (map (\<lambda>a. (1 / (2 * pi * rmax)) * a) (butlast zeros))"
    using a(1) la _ a(2) by (rule grid_ok_scaled) (use rmax in simp)
  have r': "self_r dht = map (\<lambda>a. (rmax / last zeros) * a) (butlast zeros)"
    unfolding r by (rule map_cong) simp_all
  have nu': "self_nu dht = map (\<lambda>a. (1 / (2 * pi * rmax)) * a) (butlast zeros)"
    unfolding nu by (rule map_cong) (use lpos in simp_all)
  show ?thesis unfolding r' nu' using g1 g2 by (rule conjI)
qed

lemma MDHT_grid_ok:
  assumes spec: "zeros_spec env" and rmax: "0 < rmax"
    and init: "MDHT_init env self p N rmax m (PyFloat (1/2)) Fw = Inr dht"
  shows "grid_ok N (self_r dht) \<and> grid_ok N (self_nu dht)"
proof -
  from init obtain zeros r S where
    z: "MDHT_zeros env m N = Inr zeros" and zne: "zeros \<noteq> []" and
    sp: "MDHT_spatial env p N rmax m (PyFloat (1/2)) (last zeros) (butlast zeros) = Inr (r, S)" and
    fr: "self_r dht = r" and fnu: "self_nu dht = MDHT_nu rmax (butlast zeros)"
    by (rule MDHT_init_InrD) simp
  from sp have N: "N \<noteq> 0" and r: "r = map (\<lambda>n. (rmax * 1 / real N) * (n + 1/2)) (arange N)"
    by (auto simp add: MDHT_spatial_def split: if_splits)
  have zprops: "length zeros = N + 1 \<and> sorted_wrt (\<lambda>x y. x < y) zeros \<and> (\<forall>z \<in> set zeros. 0 \<le> z)"
  proof (cases "m \<in> set include_0")
    case True
    with z obtain zs where zs: "jn_zeros env m N = Inr zs" "zeros = 0 # zs"
      by (auto simp add: MDHT_zeros_def err_bind_Inr lib_Inr)
    with spec have "length zs = N" "sorted_wrt (\<lambda>x y. x < y) zs" "\<forall>z \<in> set zs. 0 < z"
      by (auto simp add: zeros_spec_def)
    with zs show ?thesis by (auto intro: less_imp_le)
  next
    case False
    with z have "jn_zeros env m (N + 1) = Inr zeros"
      by (auto simp add: MDHT_zeros_def lib_Inr)
    with spec show ?thesis by (auto simp add: zeros_spec_def intro: less_imp_le)
  qed
  note a = alphas_ok [OF _ _ zne]
  have "grid_ok N (map (\<lambda>a. (1 / (2 * pi * rmax)) * a) (butlast zeros))"
    by (rule grid_ok_scaled) (use zprops a rmax in auto)
  then have nu: "grid_ok N (self_nu dht)" by (simp add: fnu MDHT_nu_def)
  have "sorted_wrt (\<lambda>x y. x < y) (map (\<lambda>n. (rmax * 1 / real N) * (n + 1/2)) (arange N))"
    using sorted_wrt_arange
  proof (rule sorted_wrt_map_strict)
    fix x y :: real assume "x < y"
    moreover have "0 < rmax * 1 / real N" using rmax N by simp
    ultimately show "rmax * 1 / real N * (x + 1 / 2) < rmax * 1 / real N * (y + 1 / 2)"
      by (intro mult_strict_left_mono) simp_all
  qed
  moreover have "0 \<le> map (\<lambda>n. (rmax * 1 / real N) * (n + 1/2)) (arange N) ! 0"
    using N rmax by (simp add: arange_def)
  moreover have "length (map (\<lambda>n. (rmax * 1 / real N) * (n + 1/2)) (arange N)) = N"
    by (simp add: arange_def)
  ultimately have "grid_ok N r"
    unfolding grid_ok_def r by blast
  with nu show ?thesis by (simp add: fr)
qed

lemma FHT_init_InrD:
  assumes "FHT_init env self p N rmax = Inr dht"
  shows "rmax \<noteq> 0"
    "self_r dht = map (\<lambda>n. rmax / exp (fsolve env (\<lambda>x. exp (x * real N) * (1 - exp (- x)) - 1) 1 * real N) *
                          exp (fsolve env (\<lambda>x. exp (x * real N) * (1 - exp (- x)) - 1) 1 * n)) (arange N)"
    "self_nu dht = map (\<lambda>n. 1 / (4 * rmax) *
                          exp (fsolve env (\<lambda>x. exp (x * real N) * (1 - exp (- x)) - 1) 1 * n)) (arange N)"
  using assms unfolding FHT_init_def Let_def
  by (auto simp add: err_bind_Inr split: if_splits)

lemma FHT_grid_ok:
  assumes rmax: "0 < rmax"
    and init: "FHT_init env self p N rmax = Inr dht"
    and alpha: "0 < fsolve env (\<lambda>x. exp (x * real N) * (1 - exp (- x)) - 1) 1"
  shows "grid_ok N (self_r dht) \<and> grid_ok N (self_nu dht)"
proof -
  define alpha where "alpha = fsolve env (\<lambda>x. exp (x * real N) * (1 - exp (- x)) - 1) 1"
  have apos: "0 < alpha" using alpha by (simp add: alpha_def)
  have e: "sorted_wrt (\<lambda>x y. x < y) (map (\<lambda>n. exp (alpha * n)) (arange N))"
    using sorted_wrt_arange by (rule sorted_wrt_map_strict) (use apos in simp)
  have len: "length (map (\<lambda>n. exp (alpha * n)) (arange N)) = N" by (simp add: arange_def)
  have nn: "map (\<lambda>n. exp (alpha * n)) (arange N) \<noteq> [] \<longrightarrow> 0 \<le> map (\<lambda>n. exp (alpha * n)) (arange N) ! 0"
    by (cases N) (simp_all add: arange_def upt_rec)
  have g1: "grid_ok N (map (\<lambda>a. (rmax / exp (alpha * real N)) * a) (map (\<lambda>n. exp (alpha * n)) (arange N)))"
    using e len _ nn by (rule grid_ok_scaled) (use rmax in simp)
  have g2: "grid_ok N (map (\<lambda>a. (1 / (4 * rmax)) * a) (map (\<lambda>n. exp (alpha * n)) (arange N)))"
    using e len _ nn by (rule grid_ok_scaled) (use rmax in simp)
  from FHT_init_InrD(2,3) [OF init, folded alpha_def] g1 g2
  show ?thesis by (simp add: o_def)
qed

lemma DHT_init_QDHT_D:
  assumes "DHT_init env p N rmax ''QDHT'' use_cuda kw = Inr dht"
  shows "QDHT_init env (new_self\<lparr> self_method := ''QDHT'',
        self_use_cuda := use_cuda \<and> cuda_installed env \<rparr>) p N rmax = Inr dht"
proof -
  from assms show ?thesis
    unfolding DHT_init_def Let_def
    by (auto simp add: available_methods_def split: if_splits)
qed

lemma MDHT_kw_default_d: "MDHT_kw kw = Inr (d, Fw) \<Longrightarrow> map_of kw ''d'' = None \<Longrightarrow> d = PyFloat (1/2)"
  by (auto simp add: MDHT_kw_def split: if_splits)

lemma DHT_init_methods:
  "DHT_init env p N rmax method use_cuda kw = Inr dht \<Longrightarrow>
   method = ''QDHT'' \<or> method \<in> set [''MDHT(m,m)'', ''MDHT(m-1,m)'', ''MDHT(m+1,m)'']"
  by (auto simp add: DHT_init_def available_methods_def split: if_splits)

text \<open>
  C7. With Bessel zeros that are positive, strictly increasing and as many as asked for, and
  a positive radius: for every instance the constructor builds with the default offset \<open>d\<close>
  (the quasi-discrete and the three matrix methods), the grids \<open>r\<close> and \<open>nu\<close> have length \<open>N\<close>,
  are strictly increasing and start at a value that is not negative. The same holds for the
  grids that \<open>FHT_init\<close> builds when the root \<open>alpha\<close> found for its equation is positive.
\<close>

theorem grids_strictly_increasing:
  assumes "zeros_spec env" and "0 < rmax"
  shows "(DHT_init env p N rmax method use_cuda kw = Inr dht \<and> map_of kw ''d'' = None \<longrightarrow>
            grid_ok N (get_r dht) \<and> grid_ok N (get_nu dht)) \<and>
         (FHT_init env self p N rmax = Inr fht \<and>
            0 < fsolve env (\<lambda>x. exp (x * real N) * (1 - exp (- x)) - 1) 1 \<longrightarrow>
            grid_ok N (get_r fht) \<and> grid_ok N (get_nu fht))"
proof (rule conjI; rule impI; elim conjE)
  assume init: "DHT_init env p N rmax method use_cuda kw = Inr dht"
    and d: "map_of kw ''d'' = None"
  from DHT_init_methods [OF init]
  show "grid_ok N (get_r dht) \<and> grid_ok N (get_nu dht)"
  proof
    assume "method = ''QDHT''"
    with init have "QDHT_init env (new_self\<lparr> self_method := ''QDHT'',
        self_use_cuda := use_cuda \<and> cuda_installed env \<rparr>) p N rmax = Inr dht"
      by (simp add: DHT_init_QDHT_D)
    with assms show ?thesis unfolding get_r_def get_nu_def by (rule QDHT_grid_ok)
  next
    assume "method \<in> set [''MDHT(m,m)'', ''MDHT(m-1,m)'', ''MDHT(m+1,m)'']"
    with init obtain dv Fw m where kw: "MDHT_kw kw = Inr (dv, Fw)" and
      mi: "MDHT_init env (new_self\<lparr> self_method := method,
        self_use_cuda := use_cuda \<and> cuda_installed env \<rparr>) p N rmax m dv Fw = Inr dht"
      by (rule DHT_init_MDHT_D)
    from kw d have "dv = PyFloat (1/2)" by (rule MDHT_kw_default_d)
    with mi assms show ?thesis unfolding get_r_def get_nu_def by (simp add: MDHT_grid_ok)
  qed
next
  assume "FHT_init env self p N rmax = Inr fht"
    "0 < fsolve env (\<lambda>x. exp (x * real N) * (1 - exp (- x)) - 1) 1"
  with assms(2) show "grid_ok N (get_r fht) \<and> grid_ok N (get_nu fht)"
    unfolding get_r_def get_nu_def by (rule FHT_grid_ok)
qed

lemma zeros_spec_ref_env: "zeros_spec ref_env"
  unfolding zeros_spec_def
proof (intro allI impI)
  fix m n zs assume "jn_zeros ref_env m n = Inr zs"
  then have n: "n \<noteq> 0"
    and zs: "zs = map (\<lambda>k. (4 * real k + 2 * real (nat \<bar>m\<bar>) - 1) * (355 / 452)) [1..<n + 1]"
    by (auto simp add: jn_zeros_ref_def split: if_splits)
  have "sorted_wrt (\<lambda>x y. real x < real y) [1..<n + 1]"
    by (rule sorted_wrt_mono_rel [OF _ sorted_wrt_upt]) simp
  then have "sorted_wrt (\<lambda>x y. x < y) (map real [1..<n + 1])"
    by (simp only: sorted_wrt_map)
  then have "sorted_wrt (\<lambda>x y. x < y)
      (map (\<lambda>x. (4 * x + 2 * real (nat \<bar>m\<bar>) - 1) * (355 / 452)) (map real [1..<n + 1]))"
    by (rule sorted_wrt_map_strict) simp
  then have s: "sorted_wrt (\<lambda>x y. x < y) zs" by (simp add: zs o_def)
  have "\<forall>z \<in> set zs. 0 < z"
  proof
    fix z assume "z \<in> set zs"
    then obtain k where "1 \<le> k" "z = (4 * real k + 2 * real (nat \<bar>m\<bar>) - 1) * (355 / 452)"
      by (auto simp add: zs)
    then show "0 < z" by simp
  qed
  with s show "length zs = n \<and> sorted_wrt (\<lambda>x y. x < y) zs \<and> (\<forall>z \<in> set zs. 0 < z)"
    by (simp add: zs)
qed

lemma QDHT_example_N2:
  "\<exists>X. DHT_init ref_env 0 2 1 ''QDHT'' False [] = Inr X \<and>
       get_r X = [3 / 11, 7 / 11] \<and>
       get_nu X = [1065 / 452 / (2 * pi), 2485 / 452 / (2 * pi)]"
  by (simp add: DHT_init_def available_methods_def QDHT_init_def QDHT_build_def Let_def
        jn_zeros_ref_def get_r_def get_nu_def new_self_def upt_rec)

lemma exp_ln2_2: "exp (ln 2 * 2) = (4::real)"
  using exp_of_nat2_mult [of "ln (2::real)" 2] by simp

lemma FHT_example_N2:
  "\<exists>X. FHT_init ref_env new_self 0 2 1 = Inr X \<and> get_r X = [1 / 4, 1 / 2] \<and>
       get_nu X = [1 / 4, 1 / 2]"
  by (simp add: FHT_init_def np_ifft_def arange_def ref_env_def Let_def get_r_def get_nu_def
        upt_rec exp_ln2_2)

text \<open>
  Grids of two points: those of the quasi-discrete method at \<open>p = 0\<close>, \<open>N = 2\<close>, \<open>rmax = 1\<close>,
  which are \<open>[3/11, 7/11]\<close> and \<open>[1065/452, 2485/452] / (2 pi)\<close>, and those of \<open>FHT_init\<close> at
  \<open>N = 2\<close>, which are both \<open>[1/4, 1/2]\<close>.
\<close>

theorem grids_strictly_increasing_witness:
  "zeros_spec ref_env \<and> (0::real) < 1 \<and>
   (\<exists>dht. DHT_init ref_env 0 2 1 ''QDHT'' False [] = Inr dht \<and>
      map_of ([] :: kwargs) ''d'' = None \<and>
      get_r dht = [3 / 11, 7 / 11] \<and>
      get_nu dht = [1065 / 452 / (2 * pi), 2485 / 452 / (2 * pi)] \<and>
      grid_ok 2 (get_r dht) \<and> grid_ok 2 (get_nu dht)) \<and>
   (\<exists>fht. FHT_init ref_env new_self 0 2 1 = Inr fht \<and>
      0 < fsolve ref_env (\<lambda>x. exp (x * real (2::nat)) * (1 - exp (- x)) - 1) 1 \<and>
      get_r fht = [1 / 4, 1 / 2] \<and> get_nu fht = [1 / 4, 1 / 2] \<and>
      grid_ok 2 (get_r fht) \<and> grid_ok 2 (get_nu fht))"
proof -
  from QDHT_example_N2 obtain Q where Q: "DHT_init ref_env 0 2 1 ''QDHT'' False [] = Inr Q"
    "get_r Q = [3 / 11, 7 / 11]" "get_nu Q = [1065 / 452 / (2 * pi), 2485 / 452 / (2 * pi)]"
    by blast
  from FHT_example_N2 obtain X where X: "FHT_init ref_env new_self 0 2 1 = Inr X"
    "get_r X = [1 / 4, 1 / 2]" "get_nu X = [1 / 4, 1 / 2]"
    by blast
  have a: "0 < fsolve ref_env (\<lambda>x. exp (x * real (2::nat)) * (1 - exp (- x)) - 1) 1"
    by (simp add: ref_env_def)
  have one: "(0::real) < 1" by simp
  have d: "map_of ([] :: kwargs) ''d'' = None" by simp
  note t = grids_strictly_increasing [OF zeros_spec_ref_env one]
  from t Q(1) d have "grid_ok 2 (get_r Q) \<and> grid_ok 2 (get_nu Q)"
    by blast
  moreover from t X(1) a have "grid_ok 2 (get_r X) \<and> grid_ok 2 (get_nu X)"
    by blast
  ultimately show ?thesis using zeros_spec_ref_env Q X a d one by blast
qed

lemma length_lincomb [simp]: "length (lincomb a F1 b F2) = min (length F1) (length F2)"
  by (simp add: lincomb_def)

lemma lincomb_nth [simp]:
  "i < length F1 \<Longrightarrow> i < length F2 \<Longrightarrow> lincomb a F1 b F2 ! i = a * F1 ! i + b * F2 ! i"
  by (simp add: lincomb_def)

lemma linear_opI:
  assumes "\<And>F1 F2 U1 U2 a b. length F1 = length F2 \<Longrightarrow> f F1 = Inr U1 \<Longrightarrow> f F2 = Inr U2 \<Longrightarrow>
     length U1 = length U2 \<and> f (lincomb a F1 b F2) = Inr (lincomb a U1 b U2)"
  shows "linear_op f"
  using assms unfolding linear_op_def by blast

lemma linear_opD:
  assumes "linear_op f" "length F1 = length F2" "f F1 = Inr U1" "f F2 = Inr U2"
  shows "length U1 = length U2" "f (lincomb a F1 b F2) = Inr (lincomb a U1 b U2)"
  using assms unfolding linear_op_def by blast+

lemma linear_op_bind:
  assumes f: "linear_op f" and g: "linear_op g"
  shows "linear_op (\<lambda>F. err_bind (f F) g)"
proof (rule linear_opI)
  fix F1 F2 U1 U2 a b
  assume len: "length F1 = length F2"
    and 1: "err_bind (f F1) g = Inr U1" and 2: "err_bind (f F2) g = Inr U2"
  from 1 obtain V1 where V1: "f F1 = Inr V1" "g V1 = Inr U1" by (auto simp add: err_bind_Inr)
  from 2 obtain V2 where V2: "f F2 = Inr V2" "g V2 = Inr U2" by (auto simp add: err_bind_Inr)
  note a = linear_opD [OF f len V1(1) V2(1)]
  note b = linear_opD [OF g a(1) V1(2) V2(2)]
  show "length U1 = length U2 \<and>
        err_bind (f (lincomb a F1 b F2)) g = Inr (lincomb a U1 b U2)"
    using a(2) [of a b] b(1) b(2) [of a b] by simp
qed

lemma linear_op_Inl: "linear_op (\<lambda>F. Inl e)"
  by (simp add: linear_op_def)

lemma linear_op_np_multiply: "linear_op (\<lambda>F. np_multiply F v)"
proof (rule linear_opI)
  fix F1 F2 U1 U2 a b
  assume len: "length F1 = length F2"
    and 1: "np_multiply F1 v = Inr U1" and 2: "np_multiply F2 v = Inr U2"
  consider "length F1 = length v" | "length F1 \<noteq> length v" "length F1 = 1"
    | "length F1 \<noteq> length v" "length F1 \<noteq> 1" "length v = 1"
    using 1 by (auto simp add: np_multiply_def split: if_splits)
  then show "length U1 = length U2 \<and>
        np_multiply (lincomb a F1 b F2) v = Inr (lincomb a U1 b U2)"
  proof cases
    case 1
    with \<open>np_multiply F1 v = Inr U1\<close> 2 len
    have U: "U1 = map2 (\<lambda>x y. x * y) F1 v" "U2 = map2 (\<lambda>x y. x * y) F2 v"
      by (auto simp add: np_multiply_def)
    have "map2 (\<lambda>x y. x * y) (lincomb a F1 b F2) v = lincomb a U1 b U2"
      using 1 len by (intro nth_equalityI) (simp_all add: U algebra_simps)
    with 1 len U show ?thesis by (simp add: np_multiply_def)
  next
    case 2
    with \<open>np_multiply F1 v = Inr U1\<close> \<open>np_multiply F2 v = Inr U2\<close> len
    have U: "U1 = map (\<lambda>y. F1 ! 0 * y) v" "U2 = map (\<lambda>y. F2 ! 0 * y) v"
      by (auto simp add: np_multiply_def)
    have "map (\<lambda>y. lincomb a F1 b F2 ! 0 * y) v = lincomb a U1 b U2"
      using 2 len by (intro nth_equalityI) (simp_all add: U algebra_simps)
    with 2 len U show ?thesis by (simp add: np_multiply_def)
  next
    case 3
    with \<open>np_multiply F1 v = Inr U1\<close> \<open>np_multiply F2 v = Inr U2\<close> len
    have U: "U1 = map (\<lambda>x. x * v ! 0) F1" "U2 = map (\<lambda>x. x * v ! 0) F2"
      by (auto simp add: np_multiply_def)
    have "map (\<lambda>x. x * v ! 0) (lincomb a F1 b F2) = lincomb a U1 b U2"
      using 3 len by (intro nth_equalityI) (simp_all add: U algebra_simps)
    with 3 len U show ?thesis by (simp add: np_multiply_def)
  qed
qed

lemma linear_op_array_multiply: "linear_op (\<lambda>F. array_multiply F v axis)"
  using linear_op_np_multiply by (simp add: array_multiply_def)

lemma linear_op_np_dot: "linear_op (\<lambda>F. np_dot F A)"
proof (rule linear_opI)
  fix F1 F2 U1 U2 a b
  assume len: "length F1 = length F2"
    and 1: "np_dot F1 A = Inr U1" and 2: "np_dot F2 A = Inr U2"
  define c where "c = (case A of [] \<Rightarrow> 0 | row # _ \<Rightarrow> length row)"
  from 1 have lA: "length F1 = length A"
    and U1: "U1 = map (\<lambda>j. \<Sum>i<length F1. F1 ! i * complex_of_real (A ! i ! j)) [0..<c]"
    by (auto simp add: np_dot_def c_def split: if_splits)
  from 2 have U2: "U2 = map (\<lambda>j. \<Sum>i<length F2. F2 ! i * complex_of_real (A ! i ! j)) [0..<c]"
    by (auto simp add: np_dot_def c_def split: if_splits)
  have "map (\<lambda>j. \<Sum>i<length F1. lincomb a F1 b F2 ! i * complex_of_real (A ! i ! j)) [0..<c] =
        lincomb a U1 b U2"
  proof (rule nth_equalityI)
    show "length (map (\<lambda>j. \<Sum>i<length F1. lincomb a F1 b F2 ! i * complex_of_real (A ! i ! j)) [0..<c]) =
          length (lincomb a U1 b U2)"
      by (simp add: U1 U2)
  next
    fix j assume "j < length (map (\<lambda>j. \<Sum>i<length F1. lincomb a F1 b F2 ! i *
        complex_of_real (A ! i ! j)) [0..<c])"
    then have j: "j < c" by simp
    have "(\<Sum>i<length F1. lincomb a F1 b F2 ! i * complex_of_real (A ! i ! j)) =
          (\<Sum>i<length F1. a * (F1 ! i * complex_of_real (A ! i ! j)) +
                           b * (F2 ! i * complex_of_real (A ! i ! j)))"
      using len by (intro sum.cong) (simp_all add: algebra_simps)
    also have "\<dots> = a * (\<Sum>i<length F1. F1 ! i * complex_of_real (A ! i ! j)) +
                     b * (\<Sum>i<length F1. F2 ! i * complex_of_real (A ! i ! j))"
      by (simp add: sum.distrib sum_distrib_left)
    finally show "map (\<lambda>j. \<Sum>i<length F1. lincomb a F1 b F2 ! i * complex_of_real (A ! i ! j)) [0..<c] ! j =
          lincomb a U1 b U2 ! j"
      using j len by (simp add: U1 U2)
  qed
  with lA len show "length U1 = length U2 \<and> np_dot (lincomb a F1 b F2) A = Inr (lincomb a U1 b U2)"
    by (simp add: np_dot_def c_def [symmetric] U1 U2)
qed

lemma dft_nth:
  "k < length xs \<Longrightarrow>
   dft xs ! k = (\<Sum>j<length xs. xs ! j * cis (- 2 * pi * real j * real k / real (length xs)))"
  by (simp add: dft_def Let_def)

lemma length_dft [simp]: "length (dft xs) = length xs"
  by (simp add: dft_def Let_def)

lemma dft_lincomb:
  assumes "length xs = length ys"
  shows "dft (lincomb a xs b ys) = lincomb a (dft xs) b (dft ys)"
proof (rule nth_equalityI)
  show "length (dft (lincomb a xs b ys)) = length (lincomb a (dft xs) b (dft ys))"
    using assms by simp
next
  fix k assume "k < length (dft (lincomb a xs b ys))"
  then have k: "k < length xs" using assms by simp
  let ?w = "\<lambda>j. cis (- 2 * pi * real j * real k / real (length xs))"
  have "dft (lincomb a xs b ys) ! k = (\<Sum>j<length xs. lincomb a xs b ys ! j * ?w j)"
    using k assms by (simp add: dft_nth)
  also have "\<dots> = (\<Sum>j<length xs. a * (xs ! j * ?w j) + b * (ys ! j * ?w j))"
    using assms by (intro sum.cong) (simp_all add: algebra_simps)
  also have "\<dots> = a * (\<Sum>j<length xs. xs ! j * ?w j) + b * (\<Sum>j<length xs. ys ! j * ?w j)"
    by (simp add: sum.distrib sum_distrib_left)
  also have "\<dots> = lincomb a (dft xs) b (dft ys) ! k"
    using k assms by (simp add: dft_nth)
  finally show "dft (lincomb a xs b ys) ! k = lincomb a (dft xs) b (dft ys) ! k" .
qed

lemma pad_lincomb:
  assumes "length xs = length ys"
  shows "take n (lincomb a xs b ys) @ replicate (n - length (lincomb a xs b ys)) 0 =
         lincomb a (take n xs @ replicate (n - length xs) 0) b (take n ys @ replicate (n - length ys) 0)"
  using assms
  by (intro nth_equalityI) (auto simp add: nth_append)

lemma linear_op_np_fft: "linear_op (\<lambda>F. np_fft F n_opt)"
proof (rule linear_opI)
  fix F1 F2 U1 U2 a b
  assume len: "length F1 = length F2"
    and 1: "np_fft F1 n_opt = Inr U1" and 2: "np_fft F2 n_opt = Inr U2"
  define n where "n = (case n_opt of None \<Rightarrow> length F1 | Some n \<Rightarrow> n)"
  have n2: "n = (case n_opt of None \<Rightarrow> length F2 | Some n \<Rightarrow> n)"
    and n3: "n = (case n_opt of None \<Rightarrow> length (lincomb a F1 b F2) | Some n \<Rightarrow> n)"
    using len by (simp_all add: n_def split: option.splits)
  from 1 have n0: "n \<noteq> 0" and U1: "U1 = dft (take n F1 @ replicate (n - length F1) 0)"
    by (auto simp add: np_fft_def Let_def n_def [symmetric] split: if_splits)
  from 2 have U2: "U2 = dft (take n F2 @ replicate (n - length F2) 0)"
    by (auto simp add: np_fft_def Let_def n2 [symmetric] split: if_splits)
  have "np_fft (lincomb a F1 b F2) n_opt =
        Inr (dft (take n (lincomb a F1 b F2) @ replicate (n - length (lincomb a F1 b F2)) 0))"
    using n0 unfolding np_fft_def Let_def n3 [symmetric] by simp
  also have "\<dots> = Inr (lincomb a U1 b U2)"
    unfolding pad_lincomb [OF len] U1 U2 using len by (simp add: dft_lincomb)
  finally show "length U1 = length U2 \<and> np_fft (lincomb a F1 b F2) n_opt = Inr (lincomb a U1 b U2)"
    using len by (simp add: U1 U2)
qed

lemma split_first_half:
  "err_bind (np_split2 x) (\<lambda>(h, t). g h) =
   err_bind (if odd (length x) then Inl NumpyValueError else Inr (take (length x div 2) x)) g"
  by (simp add: np_split2_def)

lemma linear_op_first_half:
  "linear_op (\<lambda>x. if odd (length x) then Inl NumpyValueError else Inr (take (length x div 2) x))"
proof (rule linear_opI)
  fix F1 F2 U1 U2 :: "complex list" and a b
  assume len: "length F1 = length F2"
    and 1: "(if odd (length F1) then Inl NumpyValueError else Inr (take (length F1 div 2) F1)) = Inr U1"
    and 2: "(if odd (length F2) then Inl NumpyValueError else Inr (take (length F2 div 2) F2)) = Inr U2"
  from 1 2 len have ev: "even (length F1)" and U: "U1 = take (length F1 div 2) F1"
    "U2 = take (length F1 div 2) F2"
    by (auto split: if_splits)
  have "take (length F1 div 2) (lincomb a F1 b F2) = lincomb a U1 b U2"
    using len by (intro nth_equalityI) (auto simp add: U)
  with ev len U show "length U1 = length U2 \<and>
        (if odd (length (lincomb a F1 b F2)) then Inl NumpyValueError
         else Inr (take (length (lincomb a F1 b F2) div 2) (lincomb a F1 b F2))) =
        Inr (lincomb a U1 b U2)"
    by simp
qed

lemma linear_op_FHT_transform: "linear_op (FHT_transform self)"
proof -
  have "FHT_transform self = (\<lambda>F.
     err_bind (array_multiply F (map complex_of_real (self_r self)) (- 1))
       (\<lambda>rF. err_bind (np_fft rF (Some (2 * self_N self)))
       (\<lambda>fft_rF. err_bind (array_multiply fft_rF (self_fft_j_convol self) (- 1))
       (\<lambda>fft_nuG. err_bind (np_fft fft_nuG None)
       (\<lambda>nuG_large. err_bind (if odd (length nuG_large) then Inl NumpyValueError
                              else Inr (take (length nuG_large div 2) nuG_large))
       (\<lambda>nuG. array_multiply nuG (map (\<lambda>x. complex_of_real (1 / x)) (self_nu self)) (- 1)))))))"
    by (simp add: FHT_transform_def fun_eq_iff split_first_half)
  then show ?thesis
    by (simp only:) (intro linear_op_bind linear_op_array_multiply linear_op_np_fft linear_op_first_half)
qed

lemma linear_op_FHT_inverse_transform: "linear_op (FHT_inverse_transform self)"
proof -
  have "FHT_inverse_transform self = (\<lambda>G.
     err_bind (array_multiply G (map complex_of_real (self_nu self)) (- 1))
       (\<lambda>nuG. err_bind (np_fft nuG (Some (2 * self_N self)))
       (\<lambda>fft_nuG. err_bind (array_multiply fft_nuG (self_fft_j_convol self) (- 1))
       (\<lambda>fft_rF. err_bind (np_fft fft_rF None)
       (\<lambda>rF_large. err_bind (if odd (length rF_large) then Inl NumpyValueError
                              else Inr (take (length rF_large div 2) rF_large))
       (\<lambda>rF. array_multiply rF (map (\<lambda>x. complex_of_real (1 / x)) (self_r self)) (- 1)))))))"
    by (simp add: FHT_inverse_transform_def fun_eq_iff split_first_half)
  then show ?thesis
    by (simp only:) (intro linear_op_bind linear_op_array_multiply linear_op_np_fft linear_op_first_half)
qed

lemma linear_op_QDHT_transform: "linear_op (QDHT_transform self)"
  unfolding QDHT_transform_def
  by (intro linear_op_bind linear_op_array_multiply linear_op_np_dot)

lemma linear_op_QDHT_inverse_transform: "linear_op (QDHT_inverse_transform self)"
  unfolding QDHT_inverse_transform_def
  by (intro linear_op_bind linear_op_array_multiply linear_op_np_dot)

lemma linear_op_dot_path:
  assumes "use_cuda \<longrightarrow> cuda_linear env"
  shows "linear_op (\<lambda>F. if use_cuda then lib (cuda_dot env F A) else np_dot F A)"
proof (cases use_cuda)
  case True
  with assms show ?thesis by (simp add: cuda_linear_def)
next
  case False
  then show ?thesis by (simp add: linear_op_np_dot)
qed

lemma linear_op_MDHT_transform:
  assumes "self_use_cuda self \<longrightarrow> cuda_linear env"
  shows "linear_op (MDHT_transform env self)"
proof (cases "self_M self")
  case None
  then have "MDHT_transform env self = (\<lambda>F. Inl (AttributeError ''M''))"
    by (simp add: MDHT_transform_def fun_eq_iff)
  then show ?thesis by (simp add: linear_op_Inl)
next
  case (Some Mx)
  then have "MDHT_transform env self =
      (\<lambda>F. if self_use_cuda self then lib (cuda_dot env F Mx) else np_dot F Mx)"
    by (simp add: MDHT_transform_def fun_eq_iff)
  then show ?thesis using linear_op_dot_path [OF assms] by simp
qed

lemma linear_op_MDHT_inverse_transform:
  assumes "self_use_cuda self \<longrightarrow> cuda_linear env"
  shows "linear_op (MDHT_inverse_transform env self)"
proof -
  have "MDHT_inverse_transform env self =
      (\<lambda>G. if self_use_cuda self then lib (cuda_dot env G (self_invM self))
            else np_dot G (self_invM self))"
    by (simp add: MDHT_inverse_transform_def fun_eq_iff)
  then show ?thesis using linear_op_dot_path [OF assms] by simp
qed

lemma linear_op_transform:
  assumes "self_use_cuda self \<longrightarrow> cuda_linear env"
  shows "linear_op (transform env self)"
proof -
  have "transform env self =
     (if self_method self = ''FHT'' then FHT_transform self
      else if self_method self = ''QDHT'' then QDHT_transform self
      else if self_method self \<in> set [''MDHT(m,m)'', ''MDHT(m-1,m)'', ''MDHT(m+1,m)'']
      then MDHT_transform env self
      else (\<lambda>F. Inl (UnboundLocalError ''G'')))"
    by (simp add: transform_def fun_eq_iff)
  then show ?thesis
    using linear_op_MDHT_transform [OF assms]
    by (simp add: linear_op_Inl linear_op_FHT_transform linear_op_QDHT_transform)
qed

lemma linear_op_inverse_transform:
  assumes "self_use_cuda self \<longrightarrow> cuda_linear env"
  shows "linear_op (inverse_transform env self)"
proof -
  have "inverse_transform env self =
     (if self_method self = ''FHT'' then FHT_inverse_transform self
      else if self_method self = ''QDHT'' then QDHT_inverse_transform self
      else if self_method self \<in> set [''MDHT(m,m)'', ''MDHT(m-1,m)'', ''MDHT(m+1,m)'']
      then MDHT_inverse_transform env self
      else (\<lambda>F. Inl (UnboundLocalError ''F'')))"
    by (simp add: inverse_transform_def fun_eq_iff)
  then show ?thesis
    using linear_op_MDHT_inverse_transform [OF assms]
    by (simp add: linear_op_Inl linear_op_FHT_inverse_transform linear_op_QDHT_inverse_transform)
qed

text \<open>
  C8. For every instance, of any method, \<open>transform\<close> and \<open>inverse_transform\<close> are linear in
  exact arithmetic: when they return on two arrays of the same length, they return on every
  linear combination of the two, with complex scalars, and the result is the same linear
  combination of the two results. On the accelerator path this needs the matrix product of the
  device to be linear.
\<close>

theorem transform_linear:
  assumes "self_use_cuda dht \<longrightarrow> cuda_linear env" and "length F1 = length F2"
  shows "(transform env dht F1 = Inr G1 \<and> transform env dht F2 = Inr G2 \<longrightarrow>
            transform env dht (lincomb a F1 b F2) = Inr (lincomb a G1 b G2)) \<and>
         (inverse_transform env dht F1 = Inr H1 \<and> inverse_transform env dht F2 = Inr H2 \<longrightarrow>
            inverse_transform env dht (lincomb a F1 b F2) = Inr (lincomb a H1 b H2))"
  using linear_opD(2) [OF linear_op_transform [OF assms(1)] assms(2)]
    linear_opD(2) [OF linear_op_inverse_transform [OF assms(1)] assms(2)]
  by blast

lemma np_dot_1x1: "np_dot [x] [[c]] = Inr [x * complex_of_real c]"
  by (simp add: np_dot_def)

text \<open>
  Both transforms return on the arrays \<open>[1]\<close> and \<open>[2]\<close> for the matrix method at
  \<open>p = m = 0\<close>, \<open>N = 1\<close>.
\<close>

theorem transform_linear_witness:
  "\<exists>dht G1 G2 H1 H2.
     DHT_init ref_env 0 1 1 ''MDHT(m,m)'' False [] = Inr dht \<and>
     (self_use_cuda dht \<longrightarrow> cuda_linear ref_env) \<and> length [1::complex] = length [2::complex] \<and>
     transform ref_env dht [1] = Inr G1 \<and> transform ref_env dht [2] = Inr G2 \<and>
     transform ref_env dht (lincomb 3 [1] 4 [2]) = Inr (lincomb 3 G1 4 G2) \<and>
     inverse_transform ref_env dht [1] = Inr H1 \<and> inverse_transform ref_env dht [2] = Inr H2 \<and>
     inverse_transform ref_env dht (lincomb 3 [1] 4 [2]) = Inr (lincomb 3 H1 4 H2)"
proof -
  let ?x = "pi * (bessel_ref 1 (1065/452))\<^sup>2 / bessel_ref 0 (1065/904)"
  let ?y = "bessel_ref 0 (1065/904) / (pi * (bessel_ref 1 (1065/452))\<^sup>2)"
  let ?D = "new_self\<lparr> self_method := ''MDHT(m,m)'',
        self_d := PyFloat (1/2), self_Fw := PyStr ''inverse'', self_p := 0, self_m := 0,
        self_N := 1, self_rmax := 1, self_nu := [1065 / 452 / (2 * pi)], self_r := [1/2],
        self_invM := [[?y]], self_M := Some [[?x]] \<rparr>"
  have cpu: "self_use_cuda ?D \<longrightarrow> cuda_linear ref_env" by (simp add: new_self_def)
  have len: "length [1::complex] = length [2::complex]" by simp
  have tr: "transform ref_env ?D [1] = Inr [1 * complex_of_real ?x]"
    "transform ref_env ?D [2] = Inr [2 * complex_of_real ?x]"
    by (simp_all add: transform_def MDHT_transform_def new_self_def np_dot_1x1)
  have it: "inverse_transform ref_env ?D [1] = Inr [1 * complex_of_real ?y]"
    "inverse_transform ref_env ?D [2] = Inr [2 * complex_of_real ?y]"
    by (simp_all add: inverse_transform_def MDHT_inverse_transform_def new_self_def np_dot_1x1)
  from transform_linear [OF cpu len] tr it
  have "transform ref_env ?D (lincomb 3 [1] 4 [2]) =
          Inr (lincomb 3 [1 * complex_of_real ?x] 4 [2 * complex_of_real ?x])"
    "inverse_transform ref_env ?D (lincomb 3 [1] 4 [2]) =
          Inr (lincomb 3 [1 * complex_of_real ?y] 4 [2 * complex_of_real ?y])"
    by blast+
  with DHT_example_0_0 cpu len tr it show ?thesis by blast
qed

lemma cis_minus_pi [simp]: "cis (- pi) = - 1"
  by (simp add: complex_eq_iff)

lemma dft_2: "dft [x0, x1] = [x0 + x1, x0 - x1]"
  by (simp add: dft_def Let_def upt_rec eval_nat_numeral)

lemma idft_2: "idft [x0, x1] = [(x0 + x1) / 2, (x0 - x1) / 2]"
  by (simp add: idft_def Let_def upt_rec eval_nat_numeral)

lemma bessel0_expand:
  "bessel_ref 0 x = (\<Sum>i<8. (- 1) ^ i / (fact i * fact i) * ((x / 2)\<^sup>2) ^ i)"
  by (simp add: bessel_ref_def power_mult [symmetric])

lemma poly8:
  fixes y :: real
  shows "(\<Sum>i<8. (- 1) ^ i / (fact i * fact i) * y ^ i) =
     (1 - y) + (y ^ 2 / 4 - y ^ 3 / 36) + (y ^ 4 / 576 - y ^ 5 / 14400) +
     (y ^ 6 / 518400 - y ^ 7 / 25401600)"
  by (simp add: eval_nat_numeral)


lemma pair_le:
  fixes y :: real
  assumes "0 \<le> y" "y \<le> 1" "0 < a" "a \<le> b"
  shows "y ^ Suc n / b \<le> y ^ n / a"
proof (rule frac_le)
  show "0 \<le> y ^ n" using assms(1) by simp
  show "y ^ Suc n \<le> y ^ n" using assms(1,2) by (simp add: mult_left_le_one_le)
  show "0 < a" "a \<le> b" by fact+
qed

lemma bessel_ref_0_pos:
  assumes "0 \<le> x" "x < 2"
  shows "0 < bessel_ref 0 x"
proof -
  define y where "y = (x / 2)\<^sup>2"
  have y0: "0 \<le> y" by (simp add: y_def)
  have "x / 2 < 1" using assms by simp
  moreover have "0 \<le> x / 2" using assms by simp
  ultimately have "(x / 2)\<^sup>2 < 1" by (simp add: power_less_one_iff)
  then have y1: "y < 1" by (simp add: y_def)
  then have yle: "y \<le> 1" by simp
  have p2: "y ^ 3 / 36 \<le> y ^ 2 / 4"
    using pair_le [OF y0 yle, of 4 36 2] by (simp add: eval_nat_numeral)
  have p3: "y ^ 5 / 14400 \<le> y ^ 4 / 576"
    using pair_le [OF y0 yle, of 576 14400 4] by (simp add: eval_nat_numeral)
  have p4: "y ^ 7 / 25401600 \<le> y ^ 6 / 518400"
    using pair_le [OF y0 yle, of 518400 25401600 6] by (simp add: eval_nat_numeral)
  have "0 < (1 - y) + (y ^ 2 / 4 - y ^ 3 / 36) + (y ^ 4 / 576 - y ^ 5 / 14400) +
     (y ^ 6 / 518400 - y ^ 7 / 25401600)"
    using y1 p2 p3 p4 by linarith
  then show ?thesis unfolding bessel0_expand y_def [symmetric] poly8 .
qed

lemma bessel_ref_0_quarter_pi: "bessel_ref 0 (pi / 4) \<noteq> 0"
proof -
  have "pi / 4 < 2" using pi_less_4 by simp
  moreover have "0 \<le> pi / 4" by simp
  ultimately have "0 < bessel_ref 0 (pi / 4)" by (intro bessel_ref_0_pos)
  then show ?thesis by simp
qed

lemma FHT_example_N1:
  "FHT_init ref_env new_self 0 1 1 =
     Inr (new_self\<lparr> self_N := 1, self_r := [1 / 2], self_nu := [1 / 4],
        self_fft_j_convol := idft
          [complex_of_real (2 * pi * ln 2 * (1 / 8) * bessel_ref 0 (2 * pi * (1 / 8))),
           complex_of_real (2 * pi * ln 2 * (1 / 4) * bessel_ref 0 (2 * pi * (1 / 4)))] \<rparr>)"
  by (simp add: FHT_init_def np_ifft_def arange_def ref_env_def Let_def upt_rec eval_nat_numeral)

lemma np_multiply_same_length:
  "length a = length v \<Longrightarrow> np_multiply a v = Inr (map2 (\<lambda>x y. x * y) a v)"
  by (simp add: np_multiply_def)

lemma np_fft_pad:
  "n \<noteq> 0 \<Longrightarrow> length a \<le> n \<Longrightarrow>
   np_fft a (Some n) = Inr (dft (a @ replicate (n - length a) 0))"
  by (simp add: np_fft_def)

lemma np_fft_whole: "a \<noteq> [] \<Longrightarrow> np_fft a None = Inr (dft a)"
  by (simp add: np_fft_def)

lemma np_split2_even:
  "even (length a) \<Longrightarrow> np_split2 a = Inr (take (length a div 2) a, drop (length a div 2) a)"
  by (simp add: np_split2_def)

text \<open>
  C5, amended. For an array as long as the grids, with a kernel of length \<open>2N\<close> and
  \<open>N > 0\<close>, \<open>FHT_transform\<close> returns, and the result is computed in this order: scale by \<open>r\<close>,
  pad with \<open>N\<close> zeros to length \<open>2N\<close>, discrete Fourier transform, multiply by the stored kernel
  \<open>fft_j_convol\<close>, discrete Fourier transform a second time (the forward transform again, not
  the inverse one), keep the first \<open>N\<close> values, scale by \<open>1/nu\<close>.
\<close>

theorem FHT_transform_steps:
  assumes F: "length F = self_N fht" and r: "length (self_r fht) = self_N fht"
    and nu: "length (self_nu fht) = self_N fht"
    and c: "length (self_fft_j_convol fht) = 2 * self_N fht" and N: "0 < self_N fht"
  shows "FHT_transform fht F =
     Inr (map2 (\<lambda>x y. x * y)
            (take (self_N fht)
               (dft (map2 (\<lambda>x y. x * y)
                       (dft (map2 (\<lambda>x y. x * y) F (map complex_of_real (self_r fht)) @
                             replicate (self_N fht) 0))
                       (self_fft_j_convol fht))))
            (map (\<lambda>x. complex_of_real (1 / x)) (self_nu fht)))"
proof -
  define rF where "rF = map2 (\<lambda>x y. x * y) F (map complex_of_real (self_r fht))"
  define fft_rF where "fft_rF = dft (rF @ replicate (self_N fht) 0)"
  define fft_nuG where "fft_nuG = map2 (\<lambda>x y. x * y) fft_rF (self_fft_j_convol fht)"
  define nuG_large where "nuG_large = dft fft_nuG"
  have lrF: "length rF = self_N fht" using F r by (simp add: rF_def)
  have 1: "array_multiply F (map complex_of_real (self_r fht)) (- 1) = Inr rF"
    using F r by (simp add: array_multiply_def np_multiply_same_length rF_def)
  have 2: "np_fft rF (Some (2 * self_N fht)) = Inr fft_rF"
    using N lrF by (simp add: np_fft_pad fft_rF_def)
  have l2: "length fft_rF = 2 * self_N fht" using lrF by (simp add: fft_rF_def)
  have 3: "array_multiply fft_rF (self_fft_j_convol fht) (- 1) = Inr fft_nuG"
    using l2 c by (simp add: array_multiply_def np_multiply_same_length fft_nuG_def)
  have l3: "length fft_nuG = 2 * self_N fht" using l2 c by (simp add: fft_nuG_def)
  then have "fft_nuG \<noteq> []" using N by auto
  then have 4: "np_fft fft_nuG None = Inr nuG_large"
    by (simp add: np_fft_whole nuG_large_def)
  have l4: "length nuG_large = 2 * self_N fht" using l3 by (simp add: nuG_large_def)
  then have 5: "np_split2 nuG_large =
      Inr (take (self_N fht) nuG_large, drop (self_N fht) nuG_large)"
    by (simp add: np_split2_even)
  have 6: "array_multiply (take (self_N fht) nuG_large)
        (map (\<lambda>x. complex_of_real (1 / x)) (self_nu fht)) (- 1) =
      Inr (map2 (\<lambda>x y. x * y) (take (self_N fht) nuG_large)
             (map (\<lambda>x. complex_of_real (1 / x)) (self_nu fht)))"
    using l4 nu by (simp add: array_multiply_def np_multiply_same_length)
  show ?thesis
    unfolding FHT_transform_def
    by (simp only: 1 2 3 4 5 6 err_bind_simps prod.case)
       (simp only: nuG_large_def fft_nuG_def fft_rF_def rF_def)
qed

lemma FHT_example_code:
  "FHT_transform (new_self\<lparr> self_N := 1, self_r := [1 / 2], self_nu := [1 / 4],
        self_fft_j_convol := idft
          [complex_of_real (2 * pi * ln 2 * (1 / 8) * bessel_ref 0 (2 * pi * (1 / 8))),
           complex_of_real (2 * pi * ln 2 * (1 / 4) * bessel_ref 0 (2 * pi * (1 / 4)))] \<rparr>) [1] =
   Inr [complex_of_real (pi * ln 2 * bessel_ref 0 (pi / 4) / 2)]"
  by (simp add: FHT_transform_def array_multiply_def np_multiply_def
        np_fft_def np_split2_def dft_2 idft_2 new_self_def)
     (simp add: field_simps)

lemma FHT_example_spec:
  "FHT_transform_spec (new_self\<lparr> self_N := 1, self_r := [1 / 2], self_nu := [1 / 4],
        self_fft_j_convol := idft
          [complex_of_real (2 * pi * ln 2 * (1 / 8) * bessel_ref 0 (2 * pi * (1 / 8))),
           complex_of_real (2 * pi * ln 2 * (1 / 4) * bessel_ref 0 (2 * pi * (1 / 4)))] \<rparr>) [1] =
   Inr [complex_of_real (pi * ln 2 * bessel_ref 0 (pi / 4) / 4)]"
  by (simp add: FHT_transform_spec_def array_multiply_def np_multiply_def
        np_fft_def np_ifft_def np_split2_def dft_2 idft_2 new_self_def)
     (simp add: field_simps)

text \<open>
  C5, as stated, fails: with the inverse transform as the fifth step the result differs from
  what the code returns. On the instance that \<open>FHT_init\<close> builds for \<open>p = 0\<close>, \<open>N = 1\<close>,
  \<open>rmax = 1\<close> and the array \<open>[1]\<close> the code returns twice the value of the worded pipeline.
\<close>

theorem FHT_transform_second_fft_counterexample:
  "(case FHT_init ref_env new_self 0 1 1 of
      Inl e \<Rightarrow> False
    | Inr fht \<Rightarrow> FHT_transform fht [1] \<noteq> FHT_transform_spec fht [1])"
  by (simp only: FHT_example_N1 sum.case FHT_example_code FHT_example_spec)
     (simp add: bessel_ref_0_quarter_pi)

text \<open>
  The steps on the instance that \<open>FHT_init\<close> builds for \<open>N = 1\<close>.
\<close>

theorem FHT_transform_steps_witness:
  "\<exists>fht. FHT_init ref_env new_self 0 1 1 = Inr fht \<and>
     length [1::complex] = self_N fht \<and> length (self_r fht) = self_N fht \<and>
     length (self_nu fht) = self_N fht \<and> length (self_fft_j_convol fht) = 2 * self_N fht \<and>
     0 < self_N fht \<and>
     FHT_transform fht [1] =
       Inr (map2 (\<lambda>x y. x * y)
            (take (self_N fht)
               (dft (map2 (\<lambda>x y. x * y)
                       (dft (map2 (\<lambda>x y. x * y) [1] (map complex_of_real (self_r fht)) @
                             replicate (self_N fht) 0))
                       (self_fft_j_convol fht))))
            (map (\<lambda>x. complex_of_real (1 / x)) (self_nu fht)))"
proof -
  let ?c = "idft
          [complex_of_real (2 * pi * ln 2 * (1 / 8) * bessel_ref 0 (2 * pi * (1 / 8))),
           complex_of_real (2 * pi * ln 2 * (1 / 4) * bessel_ref 0 (2 * pi * (1 / 4)))]"
  let ?X = "new_self\<lparr> self_N := 1, self_r := [1 / 2], self_nu := [1 / 4],
        self_fft_j_convol := ?c \<rparr>"
  have h: "length [1::complex] = self_N ?X" "length (self_r ?X) = self_N ?X"
    "length (self_nu ?X) = self_N ?X" "length (self_fft_j_convol ?X) = 2 * self_N ?X"
    "0 < self_N ?X"
    by (simp_all add: idft_2)
  from FHT_transform_steps [OF h] h FHT_example_N1 show ?thesis by blast
qed

lemma extends_refl [simp]: "extends s s"
  by (simp add: extends_def)

lemma extends_trans: "extends s s' \<Longrightarrow> extends s' s'' \<Longrightarrow> extends s s''"
  by (auto simp add: extends_def)

lemma extends_alloc: "extends s (s\<lparr> heap := heap s @ [c] \<rparr>)"
  by (simp add: extends_def)

lemma extends_length: "extends s s' \<Longrightarrow> length (heap s) \<le> length (heap s')"
  by (auto simp add: extends_def)

lemma extends_nth: "extends s s' \<Longrightarrow> a < length (heap s) \<Longrightarrow> heap s' ! a = heap s ! a"
  by (auto simp add: extends_def nth_append)

lemma py_bind_Inr:
  "py_bind m f s = Inr (y, s'') \<longleftrightarrow> (\<exists>x s'. m s = Inr (x, s') \<and> f x s' = Inr (y, s''))"
  by (cases "m s") (auto simp add: py_bind_def)

lemma py_lift_Inr: "py_lift r s = Inr (x, s') \<longleftrightarrow> r = Inr x \<and> s' = s"
  by (cases r) (auto simp add: py_lift_def)

lemma alloc_Inr:
  "alloc c s = Inr (a, s') \<longleftrightarrow> a = length (heap s) \<and> s' = s\<lparr> heap := heap s @ [c] \<rparr>"
  by (auto simp add: alloc_def)

lemma read_data_state: "read_data a s = Inr (x, s') \<Longrightarrow> s' = s"
  by (auto simp add: read_data_def split: if_splits cell.splits)

lemma read_real_state: "read_real a s = Inr (x, s') \<Longrightarrow> s' = s"
  by (auto simp add: read_real_def split: if_splits cell.splits)

lemma read_mat_state: "read_mat a s = Inr (x, s') \<Longrightarrow> s' = s"
  by (auto simp add: read_mat_def split: if_splits cell.splits)

lemma allocates_alloc_CVec: "allocates (alloc (CVec z))"
  by (auto simp add: allocates_def alloc_Inr extends_alloc)

lemma allocates_alloc_RVec: "allocates (alloc (RVec z))"
  by (auto simp add: allocates_def alloc_Inr extends_alloc)

lemma allocates_after_read:
  assumes "\<And>s x s'. m s = Inr (x, s') \<Longrightarrow> s' = s" and "\<And>x. allocates (f x)"
  shows "allocates (py_bind m f)"
  using assms unfolding allocates_def py_bind_Inr by blast

lemma allocates_bind:
  assumes m: "allocates m" and f: "\<And>x. allocates (f x)"
  shows "allocates (py_bind m f)"
  unfolding allocates_def
proof (intro allI impI)
  fix s a s'' assume "py_bind m f s = Inr (a, s'')"
  then obtain x s' where 1: "m s = Inr (x, s')" and 2: "f x s' = Inr (a, s'')"
    by (auto simp add: py_bind_Inr)
  from m 1 have e1: "extends s s'" by (auto simp add: allocates_def)
  from f [of x] 2 have e2: "extends s' s''" and a: "length (heap s') \<le> a" "a < length (heap s'')"
    "(\<exists>xs. heap s'' ! a = CVec xs) \<or> (\<exists>xs. heap s'' ! a = RVec xs)"
    by (auto simp add: allocates_def)
  from e1 e2 have "extends s s''" by (rule extends_trans)
  moreover from e1 a have "length (heap s) \<le> a" using extends_length by fastforce
  ultimately show "extends s s'' \<and> length (heap s) \<le> a \<and> a < length (heap s'') \<and>
        ((\<exists>xs. heap s'' ! a = CVec xs) \<or> (\<exists>xs. heap s'' ! a = RVec xs))"
    using a by simp
qed

lemma allocates_this: "(\<And>t. allocates (g t)) \<Longrightarrow> allocates (\<lambda>s. g (this s) s)"
  unfolding allocates_def by blast

lemma py_lift_state: "py_lift r s = Inr (x, s') \<Longrightarrow> s' = s"
  by (simp add: py_lift_Inr)

lemma allocates_h_multiply: "allocates (h_multiply a v)"
  unfolding h_multiply_def
  by (intro allocates_after_read allocates_alloc_CVec) (erule read_data_state read_data_state py_lift_state)+

lemma allocates_array_multiply_h: "allocates (array_multiply_h a v axis)"
  by (simp add: array_multiply_h_def allocates_h_multiply)

lemma allocates_h_scale: "allocates (h_scale v c)"
  unfolding h_scale_def
  by (intro allocates_after_read allocates_alloc_RVec) (erule read_real_state)

lemma allocates_h_divide: "allocates (h_divide v c)"
  unfolding h_divide_def
  by (intro allocates_after_read allocates_alloc_RVec) (erule read_real_state)

lemma allocates_h_reciprocal: "allocates (h_reciprocal v)"
  unfolding h_reciprocal_def
  by (intro allocates_after_read allocates_alloc_RVec) (erule read_real_state)

lemma allocates_h_dot: "allocates (h_dot F A)"
  unfolding h_dot_def
  by (intro allocates_after_read allocates_alloc_CVec)
     (erule read_data_state read_mat_state py_lift_state)+

lemma allocates_h_cuda_dot: "allocates (h_cuda_dot env F A)"
  unfolding h_cuda_dot_def
  by (intro allocates_after_read allocates_alloc_CVec)
     (erule read_data_state read_mat_state py_lift_state)+

lemma allocates_h_fft: "allocates (h_fft a n_opt)"
  unfolding h_fft_def
  by (intro allocates_after_read allocates_alloc_CVec)
     (erule read_data_state py_lift_state)+

lemma allocates_h_split_first: "allocates (h_split_first a)"
proof -
  have "\<And>x. allocates (case x of (h, t) \<Rightarrow> alloc (CVec h))"
    by (simp add: split_def allocates_alloc_CVec)
  then show ?thesis
    unfolding h_split_first_def
    by (intro allocates_after_read) (erule read_data_state py_lift_state | assumption)+
qed

lemma read_data_D:
  "read_data a s = Inr (x, s') \<Longrightarrow> a < length (heap s) \<and> x = data_at (heap s) a \<and> s' = s"
  by (auto simp add: read_data_def data_at_def split: if_splits cell.splits)

lemma read_real_D:
  "read_real a s = Inr (x, s') \<Longrightarrow>
   a < length (heap s) \<and> x = real_at (heap s) a \<and> heap s ! a = RVec x \<and> s' = s"
  by (auto simp add: read_real_def real_at_def split: if_splits cell.splits)

lemma read_mat_D:
  "read_mat a s = Inr (x, s') \<Longrightarrow> a < length (heap s) \<and> x = mat_at (heap s) a \<and> s' = s"
  by (auto simp add: read_mat_def mat_at_def split: if_splits cell.splits)

lemma data_at_append [simp]: "a < length h \<Longrightarrow> data_at (h @ new) a = data_at h a"
  by (simp add: data_at_def nth_append)

lemma real_at_append [simp]: "a < length h \<Longrightarrow> real_at (h @ new) a = real_at h a"
  by (simp add: real_at_def nth_append)

lemma mat_at_append [simp]: "a < length h \<Longrightarrow> mat_at (h @ new) a = mat_at h a"
  by (simp add: mat_at_def nth_append)

lemma data_at_new [simp]:
  "data_at (h @ [CVec z]) (length h) = z"
  "data_at (h @ [RVec x]) (length h) = map complex_of_real x"
  by (simp_all add: data_at_def)

lemma h_multiply_D:
  assumes "h_multiply a v s = Inr (g, s')"
  shows "a < length (heap s)" "v < length (heap s)" "this s' = this s" "g = length (heap s)"
    "\<exists>c. heap s' = heap s @ [c]"
    "np_multiply (data_at (heap s) a) (data_at (heap s) v) = Inr (data_at (heap s') g)"
  using assms unfolding h_multiply_def
  by (auto simp add: py_bind_Inr py_lift_Inr alloc_Inr dest!: read_data_D)

lemma array_multiply_h_D:
  assumes "array_multiply_h a v axis s = Inr (g, s')"
  shows "a < length (heap s)" "v < length (heap s)" "this s' = this s" "g = length (heap s)"
    "\<exists>c. heap s' = heap s @ [c]"
    "array_multiply (data_at (heap s) a) (data_at (heap s) v) axis = Inr (data_at (heap s') g)"
  using h_multiply_D [of a v s g s'] assms
  by (simp_all add: array_multiply_h_def array_multiply_def)

lemma h_dot_D:
  assumes "h_dot a A s = Inr (g, s')"
  shows "a < length (heap s)" "A < length (heap s)" "this s' = this s" "g = length (heap s)"
    "\<exists>c. heap s' = heap s @ [c]"
    "np_dot (data_at (heap s) a) (mat_at (heap s) A) = Inr (data_at (heap s') g)"
  using assms unfolding h_dot_def
  by (auto simp add: py_bind_Inr py_lift_Inr alloc_Inr dest!: read_data_D read_mat_D)

lemma h_fft_D:
  assumes "h_fft a n_opt s = Inr (g, s')"
  shows "a < length (heap s)" "this s' = this s" "g = length (heap s)"
    "\<exists>c. heap s' = heap s @ [c]"
    "np_fft (data_at (heap s) a) n_opt = Inr (data_at (heap s') g)"
  using assms unfolding h_fft_def
  by (auto simp add: py_bind_Inr py_lift_Inr alloc_Inr dest!: read_data_D)

lemma h_split_first_D:
  assumes "h_split_first a s = Inr (g, s')"
  shows "a < length (heap s)" "this s' = this s" "g = length (heap s)"
    "\<exists>c. heap s' = heap s @ [c]"
    "\<exists>t. np_split2 (data_at (heap s) a) = Inr (data_at (heap s') g, t)"
  using assms unfolding h_split_first_def
  by (auto simp add: py_bind_Inr py_lift_Inr alloc_Inr dest!: read_data_D)

lemma h_scale_D:
  assumes "h_scale v c s = Inr (g, s')"
  shows "v < length (heap s)" "this s' = this s" "g = length (heap s)"
    "\<exists>c. heap s' = heap s @ [c]"
    "data_at (heap s') g = map (\<lambda>x. complex_of_real (x * c)) (real_at (heap s) v)"
  using assms unfolding h_scale_def
  by (auto simp add: py_bind_Inr alloc_Inr o_def dest!: read_real_D)

lemma h_divide_D:
  assumes "h_divide v c s = Inr (g, s')"
  shows "v < length (heap s)" "this s' = this s" "g = length (heap s)"
    "\<exists>c. heap s' = heap s @ [c]"
    "data_at (heap s') g = map (\<lambda>x. complex_of_real (x / c)) (real_at (heap s) v)"
  using assms unfolding h_divide_def
  by (auto simp add: py_bind_Inr alloc_Inr o_def dest!: read_real_D)

lemma h_reciprocal_D:
  assumes "h_reciprocal v s = Inr (g, s')"
  shows "v < length (heap s)" "this s' = this s" "g = length (heap s)"
    "\<exists>c. heap s' = heap s @ [c]"
    "data_at (heap s') g = map (\<lambda>x. complex_of_real (1 / x)) (real_at (heap s) v)"
  using assms unfolding h_reciprocal_def
  by (auto simp add: py_bind_Inr alloc_Inr o_def dest!: read_real_D)

lemma grow_data: "\<exists>c. h' = h @ [c] \<Longrightarrow> a < length h \<Longrightarrow> data_at h' a = data_at h a"
  by auto

lemma grow_real: "\<exists>c. h' = h @ [c] \<Longrightarrow> a < length h \<Longrightarrow> real_at h' a = real_at h a"
  by auto

lemma grow_mat: "\<exists>c. h' = h @ [c] \<Longrightarrow> a < length h \<Longrightarrow> mat_at h' a = mat_at h a"
  by auto

lemma grow_length: "\<exists>c. h' = h @ [c] \<Longrightarrow> a < length h \<Longrightarrow> a < length h'"
  by auto

lemma qdht_chain:
  assumes run: "py_bind (\<lambda>s. h_scale (ref_J_inv (this s)) (c1 (this s)) s) (\<lambda>v.
     py_bind (array_multiply_h F v (- 1)) (\<lambda>F.
     py_bind (\<lambda>s. h_dot F (ref_T (this s)) s) (\<lambda>G.
     py_bind (\<lambda>s. h_divide (ref_J (this s)) (c2 (this s)) s) (\<lambda>v.
     array_multiply_h G v (- 1))))) s = Inr (G, s')"
    and F: "F < length (heap s)"
    and refs: "ref_J_inv (this s) < length (heap s)" "ref_J (this s) < length (heap s)"
      "ref_T (this s) < length (heap s)"
  shows "err_bind (array_multiply (data_at (heap s) F)
      (map (\<lambda>x. complex_of_real (x * c1 (this s))) (real_at (heap s) (ref_J_inv (this s)))) (- 1))
       (\<lambda>F. err_bind (np_dot F (mat_at (heap s) (ref_T (this s))))
       (\<lambda>G. array_multiply G
          (map (\<lambda>x. complex_of_real (x / c2 (this s))) (real_at (heap s) (ref_J (this s)))) (- 1))) =
     Inr (data_at (heap s') G)"
proof -
  from run obtain v1 s1 F1 s2 G1 s3 v2 s4 where
    1: "h_scale (ref_J_inv (this s)) (c1 (this s)) s = Inr (v1, s1)" and
    2: "array_multiply_h F v1 (- 1) s1 = Inr (F1, s2)" and
    3: "h_dot F1 (ref_T (this s2)) s2 = Inr (G1, s3)" and
    4: "h_divide (ref_J (this s3)) (c2 (this s3)) s3 = Inr (v2, s4)" and
    5: "array_multiply_h G1 v2 (- 1) s4 = Inr (G, s')"
    by (auto simp add: py_bind_Inr)
  note a = h_scale_D [OF 1] and b = array_multiply_h_D [OF 2] and c = h_dot_D [OF 3]
    and d = h_divide_D [OF 4] and e = array_multiply_h_D [OF 5]
  have t: "this s1 = this s" "this s2 = this s" "this s3 = this s" "this s4 = this s"
    using a(2) b(3) c(3) d(2) by simp_all
  have F1: "data_at (heap s1) F = data_at (heap s) F"
    using a(4) F by (rule grow_data)
  have T1: "ref_T (this s) < length (heap s1)" using a(4) refs(3) by (rule grow_length)
  have T2: "mat_at (heap s2) (ref_T (this s)) = mat_at (heap s) (ref_T (this s))"
    using grow_mat [OF b(5) T1] grow_mat [OF a(4) refs(3)] by simp
  have J1: "ref_J (this s) < length (heap s1)" using a(4) refs(2) by (rule grow_length)
  have J2: "ref_J (this s) < length (heap s2)" using b(5) J1 by (rule grow_length)
  have J3: "real_at (heap s3) (ref_J (this s)) = real_at (heap s) (ref_J (this s))"
    using grow_real [OF c(5) J2] grow_real [OF b(5) J1] grow_real [OF a(4) refs(2)] by simp
  have G4: "data_at (heap s4) G1 = data_at (heap s3) G1"
    using d(4) by (rule grow_data) (use c(4,5) in auto)
  have m1: "array_multiply (data_at (heap s) F)
      (map (\<lambda>x. complex_of_real (x * c1 (this s))) (real_at (heap s) (ref_J_inv (this s))))
      (- 1) = Inr (data_at (heap s2) F1)"
    using b(6) by (simp add: F1 a(3) [symmetric] a(5))
  have m2: "np_dot (data_at (heap s2) F1) (mat_at (heap s) (ref_T (this s))) =
      Inr (data_at (heap s3) G1)"
    using c(6) by (simp add: t T2)
  have m3: "array_multiply (data_at (heap s3) G1)
      (map (\<lambda>x. complex_of_real (x / c2 (this s))) (real_at (heap s) (ref_J (this s))))
      (- 1) = Inr (data_at (heap s') G)"
    using e(6) by (simp add: G4 d(3) [symmetric] d(5) t J3)
  show ?thesis
    by (simp only: m1 m2 m3 err_bind_simps)
qed

lemma QDHT_transform_h_value:
  assumes "QDHT_transform_h F s = Inr (G, s')" and "F < length (heap s)"
    and "ref_J_inv (this s) < length (heap s)" "ref_J (this s) < length (heap s)"
      "ref_T (this s) < length (heap s)"
  shows "QDHT_transform (abs_state s) (data_at (heap s) F) = Inr (data_at (heap s') G)"
  using qdht_chain [of ref_rmax F ref_numax s G s'] assms
  by (simp only: QDHT_transform_def QDHT_transform_h_def abs_state_def DHT.select_convs)

lemma QDHT_inverse_transform_h_value:
  assumes "QDHT_inverse_transform_h F s = Inr (G, s')" and "F < length (heap s)"
    and "ref_J_inv (this s) < length (heap s)" "ref_J (this s) < length (heap s)"
      "ref_T (this s) < length (heap s)"
  shows "QDHT_inverse_transform (abs_state s) (data_at (heap s) F) = Inr (data_at (heap s') G)"
  using qdht_chain [of ref_numax F ref_rmax s G s'] assms
  by (simp only: QDHT_inverse_transform_def QDHT_inverse_transform_h_def abs_state_def
        DHT.select_convs)

lemma fht_chain:
  assumes run: "py_bind (\<lambda>s. array_multiply_h F (ra (this s)) (- 1) s) (\<lambda>rF.
     py_bind (\<lambda>s. h_fft rF (Some (2 * ref_N (this s))) s) (\<lambda>fft_rF.
     py_bind (\<lambda>s. array_multiply_h fft_rF (ref_fft_j_convol (this s)) (- 1) s) (\<lambda>fft_nuG.
     py_bind (h_fft fft_nuG None) (\<lambda>nuG_large.
     py_bind (h_split_first nuG_large) (\<lambda>nuG.
     py_bind (\<lambda>s. h_reciprocal (rb (this s)) s) (\<lambda>v.
     array_multiply_h nuG v (- 1))))))) s = Inr (G, s')"
    and F: "F < length (heap s)"
    and refs: "ra (this s) < length (heap s)" "rb (this s) < length (heap s)"
      "ref_fft_j_convol (this s) < length (heap s)"
    and kind: "data_at (heap s) (ra (this s)) = map complex_of_real (real_at (heap s) (ra (this s)))"
  shows "err_bind (array_multiply (data_at (heap s) F)
            (map complex_of_real (real_at (heap s) (ra (this s)))) (- 1))
       (\<lambda>rF. err_bind (np_fft rF (Some (2 * ref_N (this s))))
       (\<lambda>fft_rF. err_bind (array_multiply fft_rF
            (data_at (heap s) (ref_fft_j_convol (this s))) (- 1))
       (\<lambda>fft_nuG. err_bind (np_fft fft_nuG None)
       (\<lambda>nuG_large. err_bind (np_split2 nuG_large)
       (\<lambda>(nuG, _). array_multiply nuG
            (map (\<lambda>x. complex_of_real (1 / x)) (real_at (heap s) (rb (this s)))) (- 1)))))) =
     Inr (data_at (heap s') G)"
proof -
  from run obtain g1 s1 g2 s2 g3 s3 g4 s4 g5 s5 v s6 where
    1: "array_multiply_h F (ra (this s)) (- 1) s = Inr (g1, s1)" and
    2: "h_fft g1 (Some (2 * ref_N (this s1))) s1 = Inr (g2, s2)" and
    3: "array_multiply_h g2 (ref_fft_j_convol (this s2)) (- 1) s2 = Inr (g3, s3)" and
    4: "h_fft g3 None s3 = Inr (g4, s4)" and
    5: "h_split_first g4 s4 = Inr (g5, s5)" and
    6: "h_reciprocal (rb (this s5)) s5 = Inr (v, s6)" and
    7: "array_multiply_h g5 v (- 1) s6 = Inr (G, s')"
    by (auto simp add: py_bind_Inr)
  note a = array_multiply_h_D [OF 1] and b = h_fft_D [OF 2] and c = array_multiply_h_D [OF 3]
    and d = h_fft_D [OF 4] and e = h_split_first_D [OF 5] and f = h_reciprocal_D [OF 6]
    and g = array_multiply_h_D [OF 7]
  have t: "this s1 = this s" "this s2 = this s" "this s3 = this s" "this s4 = this s"
    "this s5 = this s"
    using a(3) b(2) c(3) d(2) e(2) by simp_all
  have k1: "ref_fft_j_convol (this s) < length (heap s1)"
    using a(5) refs(3) by (rule grow_length)
  have k2: "data_at (heap s2) (ref_fft_j_convol (this s)) =
      data_at (heap s) (ref_fft_j_convol (this s))"
    using grow_data [OF b(4) k1] grow_data [OF a(5) refs(3)] by simp
  have b1: "rb (this s) < length (heap s1)" using a(5) refs(2) by (rule grow_length)
  have b2: "rb (this s) < length (heap s2)" using b(4) b1 by (rule grow_length)
  have b3: "rb (this s) < length (heap s3)" using c(5) b2 by (rule grow_length)
  have b4: "rb (this s) < length (heap s4)" using d(4) b3 by (rule grow_length)
  have b5: "real_at (heap s5) (rb (this s)) = real_at (heap s) (rb (this s))"
    using grow_real [OF e(4) b4] grow_real [OF d(4) b3] grow_real [OF c(5) b2]
      grow_real [OF b(4) b1] grow_real [OF a(5) refs(2)] by simp
  have g6: "data_at (heap s6) g5 = data_at (heap s5) g5"
    using f(4) by (rule grow_data) (use e(3,4) in auto)
  have m1: "array_multiply (data_at (heap s) F)
      (map complex_of_real (real_at (heap s) (ra (this s)))) (- 1) = Inr (data_at (heap s1) g1)"
    using a(6) by (simp add: kind)
  have m2: "np_fft (data_at (heap s1) g1) (Some (2 * ref_N (this s))) = Inr (data_at (heap s2) g2)"
    using b(5) by (simp add: t)
  have m3: "array_multiply (data_at (heap s2) g2)
      (data_at (heap s) (ref_fft_j_convol (this s))) (- 1) = Inr (data_at (heap s3) g3)"
    using c(6) by (simp add: t k2)
  have m4: "np_fft (data_at (heap s3) g3) None = Inr (data_at (heap s4) g4)"
    using d(5) .
  from e(5) obtain tl where m5: "np_split2 (data_at (heap s4) g4) = Inr (data_at (heap s5) g5, tl)" ..
  have m6: "array_multiply (data_at (heap s5) g5)
      (map (\<lambda>x. complex_of_real (1 / x)) (real_at (heap s) (rb (this s)))) (- 1) =
      Inr (data_at (heap s') G)"
    using g(6) by (simp add: g6 f(3) [symmetric] f(5) t b5)
  show ?thesis
    by (simp only: m1 m2 m3 m4 m5 m6 err_bind_simps prod.case)
qed

lemma is_rvec_D:
  "is_rvec h a \<Longrightarrow> a < length h \<and> data_at h a = map complex_of_real (real_at h a)"
  by (auto simp add: is_rvec_def data_at_def real_at_def split: cell.splits)

lemma FHT_transform_h_value:
  assumes "FHT_transform_h F s = Inr (G, s')" and "F < length (heap s)"
    and "is_rvec (heap s) (ref_r (this s))" "is_rvec (heap s) (ref_nu (this s))"
      "ref_fft_j_convol (this s) < length (heap s)"
  shows "FHT_transform (abs_state s) (data_at (heap s) F) = Inr (data_at (heap s') G)"
  using fht_chain [of F ref_r ref_nu s G s'] assms is_rvec_D
  by (simp only: FHT_transform_def FHT_transform_h_def abs_state_def DHT.select_convs)

lemma FHT_inverse_transform_h_value:
  assumes "FHT_inverse_transform_h F s = Inr (G, s')" and "F < length (heap s)"
    and "is_rvec (heap s) (ref_r (this s))" "is_rvec (heap s) (ref_nu (this s))"
      "ref_fft_j_convol (this s) < length (heap s)"
  shows "FHT_inverse_transform (abs_state s) (data_at (heap s) F) = Inr (data_at (heap s') G)"
  using fht_chain [of F ref_nu ref_r s G s'] assms is_rvec_D
  by (simp only: FHT_inverse_transform_def FHT_inverse_transform_h_def abs_state_def
        DHT.select_convs)

lemma h_cuda_dot_D:
  assumes "h_cuda_dot env a A s = Inr (g, s')"
  shows "lib (cuda_dot env (data_at (heap s) a) (mat_at (heap s) A)) = Inr (data_at (heap s') g)"
  using assms unfolding h_cuda_dot_def
  by (auto simp add: py_bind_Inr py_lift_Inr alloc_Inr dest!: read_data_D read_mat_D)

lemma MDHT_transform_h_value:
  assumes "MDHT_transform_h env F s = Inr (G, s')"
  shows "MDHT_transform env (abs_state s) (data_at (heap s) F) = Inr (data_at (heap s') G)"
  using assms
  by (auto simp add: MDHT_transform_h_def MDHT_transform_def abs_state_def
        dest: h_cuda_dot_D h_dot_D(6) split: option.splits if_splits)

lemma MDHT_inverse_transform_h_value:
  assumes "MDHT_inverse_transform_h env F s = Inr (G, s')"
  shows "MDHT_inverse_transform env (abs_state s) (data_at (heap s) F) = Inr (data_at (heap s') G)"
  using assms
  by (auto simp add: MDHT_inverse_transform_h_def MDHT_inverse_transform_def abs_state_def
        dest: h_cuda_dot_D h_dot_D(6) split: if_splits)

lemma abs_state_method [simp]: "self_method (abs_state s) = ref_method (this s)"
  by (simp add: abs_state_def)

lemma transform_h_value:
  assumes "transform_h env F s = Inr (G, s')" and "F < length (heap s)" and "refs_ok s"
  shows "transform env (abs_state s) (data_at (heap s) F) = Inr (data_at (heap s') G)"
proof -
  consider "ref_method (this s) = ''FHT''" | "ref_method (this s) = ''QDHT''"
    | "ref_method (this s) \<noteq> ''FHT''" "ref_method (this s) \<noteq> ''QDHT''"
      "ref_method (this s) \<in> set [''MDHT(m,m)'', ''MDHT(m-1,m)'', ''MDHT(m+1,m)'']"
    using assms(1) by (auto simp add: transform_h_def split: if_splits)
  then show ?thesis
  proof cases
    case 1
    with assms have "FHT_transform (abs_state s) (data_at (heap s) F) = Inr (data_at (heap s') G)"
      by (intro FHT_transform_h_value) (simp_all add: transform_h_def refs_ok_def Let_def)
    with 1 show ?thesis by (simp add: transform_def)
  next
    case 2
    with assms have "QDHT_transform (abs_state s) (data_at (heap s) F) = Inr (data_at (heap s') G)"
      by (intro QDHT_transform_h_value) (simp_all add: transform_h_def refs_ok_def Let_def)
    with 2 show ?thesis by (simp add: transform_def)
  next
    case 3
    with assms have "MDHT_transform env (abs_state s) (data_at (heap s) F) = Inr (data_at (heap s') G)"
      by (intro MDHT_transform_h_value) (simp add: transform_h_def)
    with 3 show ?thesis by (simp add: transform_def)
  qed
qed

lemma inverse_transform_h_value:
  assumes "inverse_transform_h env F s = Inr (G, s')" and "F < length (heap s)" and "refs_ok s"
  shows "inverse_transform env (abs_state s) (data_at (heap s) F) = Inr (data_at (heap s') G)"
proof -
  consider "ref_method (this s) = ''FHT''" | "ref_method (this s) = ''QDHT''"
    | "ref_method (this s) \<noteq> ''FHT''" "ref_method (this s) \<noteq> ''QDHT''"
      "ref_method (this s) \<in> set [''MDHT(m,m)'', ''MDHT(m-1,m)'', ''MDHT(m+1,m)'']"
    using assms(1) by (auto simp add: inverse_transform_h_def split: if_splits)
  then show ?thesis
  proof cases
    case 1
    with assms have "FHT_inverse_transform (abs_state s) (data_at (heap s) F) =
        Inr (data_at (heap s') G)"
      by (intro FHT_inverse_transform_h_value)
         (simp_all add: inverse_transform_h_def refs_ok_def Let_def)
    with 1 show ?thesis by (simp add: inverse_transform_def)
  next
    case 2
    with assms have "QDHT_inverse_transform (abs_state s) (data_at (heap s) F) =
        Inr (data_at (heap s') G)"
      by (intro QDHT_inverse_transform_h_value)
         (simp_all add: inverse_transform_h_def refs_ok_def Let_def)
    with 2 show ?thesis by (simp add: inverse_transform_def)
  next
    case 3
    with assms have "MDHT_inverse_transform env (abs_state s) (data_at (heap s) F) =
        Inr (data_at (heap s') G)"
      by (intro MDHT_inverse_transform_h_value) (simp add: inverse_transform_h_def)
    with 3 show ?thesis by (simp add: inverse_transform_def)
  qed
qed

lemma fht_pipeline:
  assumes F: "length F = N" and r: "length ra = N" and nu: "length rb = N"
    and c: "length cv = 2 * N" and N: "0 < N"
  shows "err_bind (array_multiply F (map complex_of_real ra) (- 1))
       (\<lambda>rF. err_bind (np_fft rF (Some (2 * N)))
       (\<lambda>fft_rF. err_bind (array_multiply fft_rF cv (- 1))
       (\<lambda>fft_nuG. err_bind (np_fft fft_nuG None)
       (\<lambda>nuG_large. err_bind (np_split2 nuG_large)
       (\<lambda>(nuG, _). array_multiply nuG (map (\<lambda>x. complex_of_real (1 / x)) rb) (- 1)))))) =
     Inr (map2 (\<lambda>x y. x * y)
            (take N
               (dft (map2 (\<lambda>x y. x * y)
                       (dft (map2 (\<lambda>x y. x * y) F (map complex_of_real ra) @ replicate N 0))
                       cv)))
            (map (\<lambda>x. complex_of_real (1 / x)) rb))"
proof -
  define rF where "rF = map2 (\<lambda>x y. x * y) F (map complex_of_real ra)"
  define fft_rF where "fft_rF = dft (rF @ replicate N 0)"
  define fft_nuG where "fft_nuG = map2 (\<lambda>x y. x * y) fft_rF cv"
  define nuG_large where "nuG_large = dft fft_nuG"
  have lrF: "length rF = N" using F r by (simp add: rF_def)
  have 1: "array_multiply F (map complex_of_real ra) (- 1) = Inr rF"
    using F r by (simp add: array_multiply_def np_multiply_same_length rF_def)
  have 2: "np_fft rF (Some (2 * N)) = Inr fft_rF"
    using N lrF by (simp add: np_fft_pad fft_rF_def)
  have l2: "length fft_rF = 2 * N" using lrF by (simp add: fft_rF_def)
  have 3: "array_multiply fft_rF cv (- 1) = Inr fft_nuG"
    using l2 c by (simp add: array_multiply_def np_multiply_same_length fft_nuG_def)
  have l3: "length fft_nuG = 2 * N" using l2 c by (simp add: fft_nuG_def)
  then have "fft_nuG \<noteq> []" using N by auto
  then have 4: "np_fft fft_nuG None = Inr nuG_large"
    by (simp add: np_fft_whole nuG_large_def)
  have l4: "length nuG_large = 2 * N" using l3 by (simp add: nuG_large_def)
  then have 5: "np_split2 nuG_large = Inr (take N nuG_large, drop N nuG_large)"
    by (simp add: np_split2_even)
  have 6: "array_multiply (take N nuG_large) (map (\<lambda>x. complex_of_real (1 / x)) rb) (- 1) =
      Inr (map2 (\<lambda>x y. x * y) (take N nuG_large) (map (\<lambda>x. complex_of_real (1 / x)) rb))"
    using l4 nu by (simp add: array_multiply_def np_multiply_same_length)
  show ?thesis
    by (simp only: 1 2 3 4 5 6 err_bind_simps prod.case)
       (simp only: nuG_large_def fft_nuG_def fft_rF_def rF_def)
qed

lemma fht_pipeline_length:
  assumes "length F = N" "length ra = N" "length rb = N" "length cv = 2 * N" "0 < N"
    and "err_bind (array_multiply F (map complex_of_real ra) (- 1))
       (\<lambda>rF. err_bind (np_fft rF (Some (2 * N)))
       (\<lambda>fft_rF. err_bind (array_multiply fft_rF cv (- 1))
       (\<lambda>fft_nuG. err_bind (np_fft fft_nuG None)
       (\<lambda>nuG_large. err_bind (np_split2 nuG_large)
       (\<lambda>(nuG, _). array_multiply nuG (map (\<lambda>x. complex_of_real (1 / x)) rb) (- 1)))))) = Inr U"
  shows "length U = N"
  using assms(6) unfolding fht_pipeline [OF assms(1-5)] using assms(1-4) by auto

lemma qdht_pipeline_length:
  assumes run: "err_bind (array_multiply F v1 (- 1))
       (\<lambda>F. err_bind (np_dot F T) (\<lambda>G. array_multiply G v2 (- 1))) = Inr U"
    and "length F = N" "length v1 = N" "length v2 = N" "square N T"
  shows "length U = N"
proof -
  have 1: "array_multiply F v1 (- 1) = Inr (map2 (\<lambda>x y. x * y) F v1)"
    using assms(2,3) by (simp add: array_multiply_def np_multiply_same_length)
  have 2: "np_dot (map2 (\<lambda>x y. x * y) F v1) T =
      Inr (map (\<lambda>j. \<Sum>i<N. map2 (\<lambda>x y. x * y) F v1 ! i * complex_of_real (T ! i ! j)) [0..<N])"
    using assms(5) by (rule np_dot_square) (use assms(2,3) in simp)
  from run show ?thesis
    unfolding 1 err_bind_simps 2
    using assms(4) by (auto simp add: array_multiply_def np_multiply_same_length)
qed

lemma transform_length:
  assumes ok: "shapes_ok dht" and F: "length F = self_N dht"
    and run: "transform env dht F = Inr U"
  shows "length U = length F"
proof -
  consider "self_method dht = ''FHT''" | "self_method dht \<noteq> ''FHT''" "self_method dht = ''QDHT''"
    | "self_method dht \<noteq> ''FHT''" "self_method dht \<noteq> ''QDHT''"
    by blast
  then show ?thesis
  proof cases
    case 1
    with ok have s: "length (self_r dht) = self_N dht" "length (self_nu dht) = self_N dht"
      "length (self_fft_j_convol dht) = 2 * self_N dht" "0 < self_N dht"
      by (simp_all add: shapes_ok_def Let_def)
    from run 1 have "FHT_transform dht F = Inr U" by (simp add: transform_def)
    then have "length U = self_N dht"
      unfolding FHT_transform_def by (rule fht_pipeline_length [OF F s])
    with F show ?thesis by simp
  next
    case 2
    with ok have s: "length (self_J dht) = self_N dht" "length (self_J_inv dht) = self_N dht"
      "square (self_N dht) (self_T dht)"
      by (simp_all add: shapes_ok_def Let_def)
    from run 2 have "QDHT_transform dht F = Inr U" by (simp add: transform_def)
    then have "length U = self_N dht"
      unfolding QDHT_transform_def
      by (rule qdht_pipeline_length) (simp_all add: s F)
    with F show ?thesis by simp
  next
    case 3
    with ok have s: "case self_M dht of None \<Rightarrow> True | Some Mx \<Rightarrow> square (self_N dht) Mx"
      "\<not> self_use_cuda dht"
      by (simp_all add: shapes_ok_def Let_def)
    from run 3 obtain Mx where M: "self_M dht = Some Mx" and d: "np_dot F Mx = Inr U"
      using s(2) by (auto simp add: transform_def MDHT_transform_def split: if_splits option.splits)
    from s(1) M have "square (self_N dht) Mx" by simp
    from np_dot_square [OF this F] d have "length U = self_N dht" by auto
    with F show ?thesis by simp
  qed
qed

lemma inverse_transform_length:
  assumes ok: "shapes_ok dht" and F: "length F = self_N dht"
    and run: "inverse_transform env dht F = Inr U"
  shows "length U = length F"
proof -
  consider "self_method dht = ''FHT''" | "self_method dht \<noteq> ''FHT''" "self_method dht = ''QDHT''"
    | "self_method dht \<noteq> ''FHT''" "self_method dht \<noteq> ''QDHT''"
    by blast
  then show ?thesis
  proof cases
    case 1
    with ok have s: "length (self_r dht) = self_N dht" "length (self_nu dht) = self_N dht"
      "length (self_fft_j_convol dht) = 2 * self_N dht" "0 < self_N dht"
      by (simp_all add: shapes_ok_def Let_def)
    from run 1 have "FHT_inverse_transform dht F = Inr U" by (simp add: inverse_transform_def)
    then have "length U = self_N dht"
      unfolding FHT_inverse_transform_def by (rule fht_pipeline_length [OF F s(2) s(1) s(3) s(4)])
    with F show ?thesis by simp
  next
    case 2
    with ok have s: "length (self_J dht) = self_N dht" "length (self_J_inv dht) = self_N dht"
      "square (self_N dht) (self_T dht)"
      by (simp_all add: shapes_ok_def Let_def)
    from run 2 have "QDHT_inverse_transform dht F = Inr U" by (simp add: inverse_transform_def)
    then have "length U = self_N dht"
      unfolding QDHT_inverse_transform_def
      by (rule qdht_pipeline_length) (simp_all add: s F)
    with F show ?thesis by simp
  next
    case 3
    with ok have s: "square (self_N dht) (self_invM dht)" "\<not> self_use_cuda dht"
      by (simp_all add: shapes_ok_def Let_def)
    from run 3 have d: "np_dot F (self_invM dht) = Inr U"
      using s(2) by (auto simp add: inverse_transform_def MDHT_inverse_transform_def split: if_splits)
    from np_dot_square [OF s(1) F] d have "length U = self_N dht" by auto
    with F show ?thesis by simp
  qed
qed

lemma allocates_scale_attr: "allocates (\<lambda>s. h_scale (f (this s)) (c (this s)) s)"
  using allocates_h_scale unfolding allocates_def by blast

lemma allocates_divide_attr: "allocates (\<lambda>s. h_divide (f (this s)) (c (this s)) s)"
  using allocates_h_divide unfolding allocates_def by blast

lemma allocates_dot_attr: "allocates (\<lambda>s. h_dot F (f (this s)) s)"
  using allocates_h_dot unfolding allocates_def by blast

lemma allocates_multiply_attr: "allocates (\<lambda>s. array_multiply_h F (f (this s)) axis s)"
  using allocates_array_multiply_h unfolding allocates_def by blast

lemma allocates_fft_attr: "allocates (\<lambda>s. h_fft F (Some (2 * f (this s))) s)"
  using allocates_h_fft unfolding allocates_def by blast

lemma allocates_reciprocal_attr: "allocates (\<lambda>s. h_reciprocal (f (this s)) s)"
  using allocates_h_reciprocal unfolding allocates_def by blast

lemma allocates_QDHT_transform_h: "allocates (QDHT_transform_h F)"
  unfolding QDHT_transform_h_def
  by (intro allocates_bind allocates_array_multiply_h
        allocates_scale_attr [of ref_J_inv ref_rmax] allocates_divide_attr [of ref_J ref_numax]
        allocates_dot_attr [of _ ref_T])

lemma allocates_QDHT_inverse_transform_h: "allocates (QDHT_inverse_transform_h F)"
  unfolding QDHT_inverse_transform_h_def
  by (intro allocates_bind allocates_array_multiply_h
        allocates_scale_attr [of ref_J_inv ref_numax] allocates_divide_attr [of ref_J ref_rmax]
        allocates_dot_attr [of _ ref_T])

lemma allocates_FHT_transform_h: "allocates (FHT_transform_h F)"
  unfolding FHT_transform_h_def
  by (intro allocates_bind allocates_array_multiply_h allocates_h_fft allocates_h_split_first
        allocates_multiply_attr [of _ ref_r] allocates_multiply_attr [of _ ref_fft_j_convol]
        allocates_fft_attr [of _ ref_N] allocates_reciprocal_attr [of ref_nu])

lemma allocates_FHT_inverse_transform_h: "allocates (FHT_inverse_transform_h F)"
  unfolding FHT_inverse_transform_h_def
  by (intro allocates_bind allocates_array_multiply_h allocates_h_fft allocates_h_split_first
        allocates_multiply_attr [of _ ref_nu] allocates_multiply_attr [of _ ref_fft_j_convol]
        allocates_fft_attr [of _ ref_N] allocates_reciprocal_attr [of ref_r])

lemma allocates_MDHT_transform_h: "allocates (MDHT_transform_h env F)"
  using allocates_h_dot allocates_h_cuda_dot
  unfolding allocates_def MDHT_transform_h_def
  by (auto split: option.splits if_splits)

lemma allocates_MDHT_inverse_transform_h: "allocates (MDHT_inverse_transform_h env F)"
  using allocates_h_dot allocates_h_cuda_dot
  unfolding allocates_def MDHT_inverse_transform_h_def
  by (auto split: if_splits)

lemma allocates_transform_h: "allocates (transform_h env F)"
  using allocates_FHT_transform_h [of F] allocates_QDHT_transform_h [of F]
    allocates_MDHT_transform_h [of env F]
  unfolding allocates_def transform_h_def
  by (auto split: if_splits)

lemma allocates_inverse_transform_h: "allocates (inverse_transform_h env F)"
  using allocates_FHT_inverse_transform_h [of F] allocates_QDHT_inverse_transform_h [of F]
    allocates_MDHT_inverse_transform_h [of env F]
  unfolding allocates_def inverse_transform_h_def
  by (auto split: if_splits)

lemma allocatesD:
  assumes "allocates m" "m s = Inr (G, s')"
  shows "this s' = this s" "\<forall>a<length (heap s). heap s' ! a = heap s ! a"
    "length (heap s) \<le> G" "G < length (heap s')"
proof -
  from assms have e: "extends s s'" and a: "length (heap s) \<le> G" "G < length (heap s')"
    unfolding allocates_def by blast+
  from e show "this s' = this s" by (simp add: extends_def)
  from e show "\<forall>a<length (heap s). heap s' ! a = heap s ! a" by (simp add: extends_nth)
  from a show "length (heap s) \<le> G" "G < length (heap s')" .
qed

text \<open>
  C9. On the store of arrays, whenever \<open>transform\<close> or \<open>inverse_transform\<close> returns: the
  object is as it was (its configuration fields, and which arrays its attributes name); every
  array that existed before the call, so each array of the object and the input array, holds
  the values it held; the result is at an address that did not exist before the call, a new
  array. If the input is an array of the store and the attributes that the method reads name
  arrays of the store, the values of the result are those that the transform of the first
  embedding computes from the values of the object and of the input; and if moreover the
  arrays of the object have the sizes that the construction for \<open>N\<close> points gives them
  and the input has \<open>N\<close> values, the result has as many values as the input. The last part
  is for the routines of numpy: the size of what the routine of the GPU library returns is not
  known.
\<close>

theorem transform_is_pure:
  "(transform_h env F s = Inr (G, s') \<longrightarrow>
      this s' = this s \<and> (\<forall>a<length (heap s). heap s' ! a = heap s ! a) \<and>
      length (heap s) \<le> G \<and> G < length (heap s') \<and>
      (F < length (heap s) \<and> refs_ok s \<longrightarrow>
         transform env (abs_state s) (data_at (heap s) F) = Inr (data_at (heap s') G) \<and>
         (shapes_ok (abs_state s) \<and> length (data_at (heap s) F) = ref_N (this s) \<longrightarrow>
            length (data_at (heap s') G) = length (data_at (heap s) F)))) \<and>
   (inverse_transform_h env F s = Inr (G, s') \<longrightarrow>
      this s' = this s \<and> (\<forall>a<length (heap s). heap s' ! a = heap s ! a) \<and>
      length (heap s) \<le> G \<and> G < length (heap s') \<and>
      (F < length (heap s) \<and> refs_ok s \<longrightarrow>
         inverse_transform env (abs_state s) (data_at (heap s) F) = Inr (data_at (heap s') G) \<and>
         (shapes_ok (abs_state s) \<and> length (data_at (heap s) F) = ref_N (this s) \<longrightarrow>
            length (data_at (heap s') G) = length (data_at (heap s) F))))"
proof (rule conjI; rule impI)
  assume run: "transform_h env F s = Inr (G, s')"
  note fr = allocatesD [OF allocates_transform_h run]
  have "transform env (abs_state s) (data_at (heap s) F) = Inr (data_at (heap s') G) \<and>
      (shapes_ok (abs_state s) \<and> length (data_at (heap s) F) = ref_N (this s) \<longrightarrow>
         length (data_at (heap s') G) = length (data_at (heap s) F))"
    if "F < length (heap s)" "refs_ok s"
  proof -
    have v: "transform env (abs_state s) (data_at (heap s) F) = Inr (data_at (heap s') G)"
      using run that by (rule transform_h_value)
    have N: "self_N (abs_state s) = ref_N (this s)" by (simp add: abs_state_def)
    from v show ?thesis using transform_length [of "abs_state s" "data_at (heap s) F" env]
      by (simp add: N)
  qed
  with fr show "this s' = this s \<and> (\<forall>a<length (heap s). heap s' ! a = heap s ! a) \<and>
      length (heap s) \<le> G \<and> G < length (heap s') \<and>
      (F < length (heap s) \<and> refs_ok s \<longrightarrow>
         transform env (abs_state s) (data_at (heap s) F) = Inr (data_at (heap s') G) \<and>
         (shapes_ok (abs_state s) \<and> length (data_at (heap s) F) = ref_N (this s) \<longrightarrow>
            length (data_at (heap s') G) = length (data_at (heap s) F)))"
    by blast
next
  assume run: "inverse_transform_h env F s = Inr (G, s')"
  note fr = allocatesD [OF allocates_inverse_transform_h run]
  have "inverse_transform env (abs_state s) (data_at (heap s) F) = Inr (data_at (heap s') G) \<and>
      (shapes_ok (abs_state s) \<and> length (data_at (heap s) F) = ref_N (this s) \<longrightarrow>
         length (data_at (heap s') G) = length (data_at (heap s) F))"
    if "F < length (heap s)" "refs_ok s"
  proof -
    have v: "inverse_transform env (abs_state s) (data_at (heap s) F) = Inr (data_at (heap s') G)"
      using run that by (rule inverse_transform_h_value)
    have N: "self_N (abs_state s) = ref_N (this s)" by (simp add: abs_state_def)
    from v show ?thesis
      using inverse_transform_length [of "abs_state s" "data_at (heap s) F" env]
      by (simp add: N)
  qed
  with fr show "this s' = this s \<and> (\<forall>a<length (heap s). heap s' ! a = heap s ! a) \<and>
      length (heap s) \<le> G \<and> G < length (heap s') \<and>
      (F < length (heap s) \<and> refs_ok s \<longrightarrow>
         inverse_transform env (abs_state s) (data_at (heap s) F) = Inr (data_at (heap s') G) \<and>
         (shapes_ok (abs_state s) \<and> length (data_at (heap s) F) = ref_N (this s) \<longrightarrow>
            length (data_at (heap s') G) = length (data_at (heap s) F)))"
    by blast
qed

text \<open>
  Both calls on a store that holds the arrays of the object built for \<open>p = 0\<close>, \<open>N = 1\<close>,
  \<open>rmax = 1\<close> by the method \<open>'MDHT(m,m)'\<close> and, at address 4, the input array \<open>[1]\<close>: each
  returns the new address 5.
\<close>

theorem transform_is_pure_witness:
  "\<exists>s s1 s2.
     s = \<lparr> this = \<lparr> ref_method = ''MDHT(m,m)'', ref_use_cuda = False, ref_d = PyFloat (1/2),
                    ref_Fw = PyStr ''inverse'', ref_p = 0, ref_m = 0, ref_N = 1, ref_rmax = 1,
                    ref_numax = 0, ref_r = 0, ref_nu = 1, ref_invM = 2, ref_M = Some 3,
                    ref_J = 5, ref_J_inv = 5, ref_T = 5, ref_fft_j_convol = 5 \<rparr>,
           heap = [RVec [1/2], RVec [1065 / 452 / (2 * pi)],
                   Mat [[bessel_ref 0 (1065/904) / (pi * (bessel_ref 1 (1065/452))\<^sup>2)]],
                   Mat [[pi * (bessel_ref 1 (1065/452))\<^sup>2 / bessel_ref 0 (1065/904)]],
                   CVec [1]] \<rparr> \<and>
     4 < length (heap s) \<and> refs_ok s \<and> shapes_ok (abs_state s) \<and>
     length (data_at (heap s) 4) = ref_N (this s) \<and>
     transform_h ref_env 4 s = Inr (5, s1) \<and> inverse_transform_h ref_env 4 s = Inr (5, s2) \<and>
     this s1 = this s \<and> (\<forall>a<length (heap s). heap s1 ! a = heap s ! a) \<and>
     transform ref_env (abs_state s) (data_at (heap s) 4) = Inr (data_at (heap s1) 5) \<and>
     length (data_at (heap s1) 5) = length (data_at (heap s) 4) \<and>
     this s2 = this s \<and> (\<forall>a<length (heap s). heap s2 ! a = heap s ! a) \<and>
     inverse_transform ref_env (abs_state s) (data_at (heap s) 4) = Inr (data_at (heap s2) 5) \<and>
     length (data_at (heap s2) 5) = length (data_at (heap s) 4)"
proof -
  let ?x = "pi * (bessel_ref 1 (1065/452))\<^sup>2 / bessel_ref 0 (1065/904)"
  let ?y = "bessel_ref 0 (1065/904) / (pi * (bessel_ref 1 (1065/452))\<^sup>2)"
  let ?s = "\<lparr> this = \<lparr> ref_method = ''MDHT(m,m)'', ref_use_cuda = False, ref_d = PyFloat (1/2),
                    ref_Fw = PyStr ''inverse'', ref_p = 0, ref_m = 0, ref_N = 1, ref_rmax = 1,
                    ref_numax = 0, ref_r = 0, ref_nu = 1, ref_invM = 2, ref_M = Some 3,
                    ref_J = 5, ref_J_inv = 5, ref_T = 5, ref_fft_j_convol = 5 \<rparr>,
           heap = [RVec [1/2], RVec [1065 / 452 / (2 * pi)], Mat [[?y]], Mat [[?x]],
                   CVec [1]] \<rparr>"
  let ?s1 = "?s\<lparr> heap := heap ?s @ [CVec [1 * complex_of_real ?x]] \<rparr>"
  let ?s2 = "?s\<lparr> heap := heap ?s @ [CVec [1 * complex_of_real ?y]] \<rparr>"
  have F: "4 < length (heap ?s)" by simp
  have refs: "refs_ok ?s" by (simp add: refs_ok_def)
  have shapes: "shapes_ok (abs_state ?s)"
    by (simp add: shapes_ok_def abs_state_def mat_at_def square_def)
  have len: "length (data_at (heap ?s) 4) = ref_N (this ?s)" by (simp add: data_at_def)
  have run1: "transform_h ref_env 4 ?s = Inr (5, ?s1)"
    by (simp add: transform_h_def MDHT_transform_h_def h_dot_def py_bind_def read_data_def
          read_mat_def py_lift_def alloc_def np_dot_1x1)
  have run2: "inverse_transform_h ref_env 4 ?s = Inr (5, ?s2)"
    by (simp add: inverse_transform_h_def MDHT_inverse_transform_h_def h_dot_def py_bind_def
          read_data_def read_mat_def py_lift_def alloc_def np_dot_1x1)
  from transform_is_pure [of ref_env 4 ?s 5 ?s1] transform_is_pure [of ref_env 4 ?s 5 ?s2]
    F refs shapes len run1 run2
  show ?thesis by blast
qed

end
